theory Spec2Isabelle
  imports Main "HOL-Library.AList"
begin


section \<open>Python strings and lists\<close>

text \<open>
  Every stage of the pipeline reports a failure as a dictionary
  \<^verbatim>\<open>{"success": False, "error": msg}\<close> and a success as a dictionary with
  \<^verbatim>\<open>"success": True\<close>. A result is therefore a sum: \<open>Inl msg\<close> carries the
  message, \<open>Inr v\<close> the payload. A Python \<^verbatim>\<open>str\<close> is a list of characters;
  \<^verbatim>\<open>len\<close> is \<open>length\<close>. Lengths, counters, indices and page numbers are
  natural numbers; \<open>top_k\<close>, which the caller chooses, is an integer.
\<close>

type_synonym error = string

definition bind_err :: "error + 'a \<Rightarrow> ('a \<Rightarrow> error + 'b) \<Rightarrow> error + 'b" where
  "bind_err m f = (case m of Inl e \<Rightarrow> Inl e | Inr x \<Rightarrow> f x)"

text \<open>\<^verbatim>\<open>xs[i]\<close> with a non-negative index: IndexError out of range.\<close>

definition py_index :: "'a list \<Rightarrow> nat \<Rightarrow> error + 'a" where
  "py_index xs i = (if i < length xs then Inr (xs ! i) else Inl ''list index out of range'')"

text \<open>
  \<^verbatim>\<open>str.isspace\<close> on the code points below 256: tab, line feed, vertical tab, form
  feed, carriage return, the four separators 0x1C to 0x1F, space, NEL and the
  no-break space.
\<close>

definition is_space :: "char \<Rightarrow> bool" where
  "is_space c =
     (c \<in> set [CHR 0x09, CHR 0x0A, CHR 0x0B, CHR 0x0C, CHR 0x0D, CHR 0x1C, CHR 0x1D,
               CHR 0x1E, CHR 0x1F, CHR 0x20, CHR 0x85, CHR 0xA0])"

text \<open>\<^verbatim>\<open>s.split()\<close>: the maximal runs of non-whitespace characters, in order.\<close>

function py_split :: "string \<Rightarrow> string list" where
  "py_split s =
     (case dropWhile is_space s of
        [] \<Rightarrow> []
      | c # cs \<Rightarrow>
          (c # takeWhile (\<lambda>x. \<not> is_space x) cs) # py_split (dropWhile (\<lambda>x. \<not> is_space x) cs))"
  by pat_completeness auto
termination
proof (relation "measure length")
  show "wf (measure length)" by simp
next
  fix s :: string and c cs
  assume "dropWhile is_space s = c # cs"
  then have "length (c # cs) \<le> length s"
    by (metis length_dropWhile_le)
  moreover have "length (dropWhile (\<lambda>x. \<not> is_space x) cs) \<le> length cs"
    by (rule length_dropWhile_le)
  ultimately show "(dropWhile (\<lambda>x. \<not> is_space x) cs, s) \<in> measure length"
    by simp
qed

declare py_split.simps [simp del]

text \<open>A token: non-empty and free of whitespace.\<close>

definition is_token :: "string \<Rightarrow> bool" where
  "is_token w = (w \<noteq> [] \<and> list_all (\<lambda>c. \<not> is_space c) w)"

text \<open>\<^verbatim>\<open>sep.join(xs)\<close>.\<close>

fun py_join :: "string \<Rightarrow> string list \<Rightarrow> string" where
  "py_join sep [] = []"
| "py_join sep [x] = x"
| "py_join sep (x # y # ys) = x @ sep @ py_join sep (y # ys)"

text \<open>\<^verbatim>\<open>s.strip()\<close>: whitespace removed at both ends.\<close>

definition py_strip :: "string \<Rightarrow> string" where
  "py_strip s = rev (dropWhile is_space (rev (dropWhile is_space s)))"

text \<open>
  The guard \<^verbatim>\<open>not s or len(s.strip()) == 0\<close> that the chunker and the search use.
\<close>

definition is_blank :: "string \<Rightarrow> bool" where
  "is_blank s = (s = [] \<or> length (py_strip s) = 0)"

text \<open>\<^verbatim>\<open>str(n)\<close> for a non-negative integer: its decimal digits.\<close>

definition decimal_digit :: "nat \<Rightarrow> char" where
  "decimal_digit d = ''0123456789'' ! d"

fun py_str_nat :: "nat \<Rightarrow> string" where
  "py_str_nat n =
     (if n < 10 then [decimal_digit n]
      else py_str_nat (n div 10) @ [decimal_digit (n mod 10)])"

declare py_str_nat.simps [simp del]

text \<open>
  \<^verbatim>\<open>s.lower()\<close> on the ASCII letters, which is all that the test
  \<^verbatim>\<open>pdf_path.lower().endswith('.pdf')\<close> can see.
\<close>

definition lower_char :: "char \<Rightarrow> char" where
  "lower_char c =
     (case map_of (zip ''ABCDEFGHIJKLMNOPQRSTUVWXYZ'' ''abcdefghijklmnopqrstuvwxyz'') c of
        Some d \<Rightarrow> d
      | None \<Rightarrow> c)"

definition py_lower :: "string \<Rightarrow> string" where
  "py_lower s = map lower_char s"

definition py_endswith :: "string \<Rightarrow> string \<Rightarrow> bool" where
  "py_endswith s suf = (length suf \<le> length s \<and> drop (length s - length suf) s = suf)"

text \<open>\<^verbatim>\<open>os.path.basename\<close> (POSIX): what follows the last slash.\<close>

definition basename :: "string \<Rightarrow> string" where
  "basename p = rev (takeWhile (\<lambda>c. c \<noteq> CHR ''/'') (rev p))"


section \<open>The extractor adapter (tools/pdf_extractor.py)\<close>

text \<open>
  The file system and PyPDF2 are outside the repository. \<open>path_exists\<close> is
  \<^verbatim>\<open>os.path.exists\<close>; \<open>pdf_reader\<close> is \<^verbatim>\<open>PdfReader(path)\<close>, which raises or
  gives the pages, and each page's \<^verbatim>\<open>extract_text()\<close> raises or gives the raw
  text of that page.
\<close>

record pdf_env =
  path_exists :: "string \<Rightarrow> bool"
  pdf_reader :: "string \<Rightarrow> error + (error + string) list"

record doc_metadata =
  dm_filename :: string
  dm_num_pages :: nat
  dm_total_characters :: nat
  dm_total_words :: nat

record extraction =
  ex_text :: string
  ex_page_texts :: "nat \<rightharpoonup> string"
  ex_metadata :: doc_metadata

text \<open>The cleaning step \<^verbatim>\<open>" ".join(text.split())\<close>.\<close>

definition clean_text :: "string \<Rightarrow> string" where
  "clean_text raw = py_join '' '' (py_split raw)"

text \<open>
  The loop over \<^verbatim>\<open>range(num_pages)\<close>: \<open>page_num\<close> is the 0-based index of the
  next page, \<open>all_text\<close> and \<open>page_texts\<close> are the two accumulators.
\<close>

fun extract_pages ::
  "(error + string) list \<Rightarrow> nat \<Rightarrow> string list \<Rightarrow> (nat \<rightharpoonup> string) \<Rightarrow>
     error + (string list \<times> (nat \<rightharpoonup> string))" where
  "extract_pages [] page_num all_text page_texts = Inr (all_text, page_texts)"
| "extract_pages (page # pages) page_num all_text page_texts =
     (case page of
        Inl e \<Rightarrow> Inl e
      | Inr raw \<Rightarrow>
          extract_pages pages (page_num + 1) (all_text @ [clean_text raw])
            (page_texts(page_num + 1 \<mapsto> clean_text raw)))"

definition extract_text_from_pdf :: "pdf_env \<Rightarrow> string \<Rightarrow> error + extraction" where
  "extract_text_from_pdf env pdf_path =
     (if \<not> path_exists env pdf_path then Inl (''File not found: '' @ pdf_path)
      else if \<not> py_endswith (py_lower pdf_path) ''.pdf''
        then Inl ''File must be a PDF (.pdf extension)''
      else
        (case pdf_reader env pdf_path of
           Inl e \<Rightarrow> Inl (''Error extracting PDF: '' @ e)
         | Inr pages \<Rightarrow>
             (case extract_pages pages 0 [] Map.empty of
                Inl e \<Rightarrow> Inl (''Error extracting PDF: '' @ e)
              | Inr (all_text, page_texts) \<Rightarrow>
                  (let combined_text = py_join '' '' all_text
                   in Inr \<lparr>ex_text = combined_text,
                           ex_page_texts = page_texts,
                           ex_metadata =
                             \<lparr>dm_filename = basename pdf_path,
                              dm_num_pages = length pages,
                              dm_total_characters = length combined_text,
                              dm_total_words = length (py_split combined_text)\<rparr>\<rparr>))))"


section \<open>The chunker (tools/chunking_tool.py)\<close>

text \<open>
  A chunk is a Python dictionary; a key that may be absent is an optional field.
  \<open>ch_text\<close> is the key \<^verbatim>\<open>"text"\<close>.
\<close>

record chunk =
  ch_id :: "string option"
  ch_text :: "string option"
  ch_chunk_index :: "nat option"
  ch_total_chunks :: "nat option"
  ch_source :: "string option"
  ch_char_count :: "nat option"
  ch_word_count :: "nat option"
  ch_page_number :: "nat option"
  ch_global_chunk_id :: "string option"

record chunk_statistics =
  cs_total_chunks :: nat
  cs_avg_chunk_size :: nat
  cs_total_characters :: nat
  cs_total_words :: nat

record chunk_result =
  cr_chunks :: "chunk list"
  cr_statistics :: chunk_statistics

text \<open>
  langchain's \<^verbatim>\<open>RecursiveCharacterTextSplitter\<close> is outside the repository: a
  splitter takes the chunk size, the overlap and the text, and raises or gives the
  segments in text order.
\<close>

type_synonym splitter = "nat \<Rightarrow> nat \<Rightarrow> string \<Rightarrow> error + string list"

text \<open>The dictionary built for the segment at 0-based position \<open>i\<close> of \<open>n_chunks\<close>.\<close>

definition chunk_obj :: "string \<Rightarrow> nat \<Rightarrow> nat \<Rightarrow> string \<Rightarrow> chunk" where
  "chunk_obj source_name n_chunks i seg =
     \<lparr>ch_id = Some (source_name @ ''_chunk_'' @ py_str_nat (i + 1)),
      ch_text = Some seg,
      ch_chunk_index = Some (i + 1),
      ch_total_chunks = Some n_chunks,
      ch_source = Some source_name,
      ch_char_count = Some (length seg),
      ch_word_count = Some (length (py_split seg)),
      ch_page_number = None,
      ch_global_chunk_id = None\<rparr>"

definition chunk_text :: "splitter \<Rightarrow> string \<Rightarrow> nat \<Rightarrow> nat \<Rightarrow> string \<Rightarrow> error + chunk_result" where
  "chunk_text split_text txt chunk_size chunk_overlap source_name =
     (if is_blank txt then Inl ''Text is empty or None''
      else
        (case split_text chunk_size chunk_overlap txt of
           Inl e \<Rightarrow> Inl (''Error chunking text: '' @ e)
         | Inr chunks \<Rightarrow>
             Inr \<lparr>cr_chunks =
                    map (\<lambda>(i, seg). chunk_obj source_name (length chunks) i seg)
                      (enumerate 0 chunks),
                  cr_statistics =
                    \<lparr>cs_total_chunks = length chunks,
                     cs_avg_chunk_size =
                       (if chunks \<noteq> [] then sum_list (map length chunks) div length chunks
                        else 0),
                     cs_total_characters = length txt,
                     cs_total_words = length (py_split txt)\<rparr>\<rparr>))"

definition get_optimal_chunk_size :: "string \<Rightarrow> nat" where
  "get_optimal_chunk_size txt =
     (let text_length = length txt
      in if text_length < 5000 then 500
         else if text_length < 20000 then 1000
         else if text_length < 100000 then 1500
         else 2000)"


section \<open>The retrieval store adapter (tools/vector_store.py)\<close>

text \<open>
  The metadata dictionary kept with a passage. What \<open>add_chunks\<close> stores has all
  five keys; what a query gives back is read with \<^verbatim>\<open>.get\<close> and a default, so a
  key may be absent.
\<close>

record chunk_metadata =
  cm_chunk_index :: "nat option"
  cm_source :: "string option"
  cm_char_count :: "nat option"
  cm_word_count :: "nat option"
  cm_page_number :: "nat option"

text \<open>
  What \<^verbatim>\<open>collection.query\<close> returns for one query text: a dictionary of lists
  with one inner list per query text. \<open>qr_documents = None\<close> is the value
  \<^verbatim>\<open>None\<close> under \<^verbatim>\<open>'documents'\<close>; \<open>qr_distances = None\<close> is the key
  \<^verbatim>\<open>'distances'\<close> being absent.
\<close>

record 'd query_result =
  qr_ids :: "string list list"
  qr_documents :: "string list list option"
  qr_metadatas :: "chunk_metadata list list"
  qr_distances :: "'d list list option"

text \<open>
  The vector index is outside the repository: the adapter sees a collection
  \<open>'st\<close> through three operations. \<open>coll_add\<close> takes the documents, the
  metadata records and the ids, and gives the exception it raised, if any, and the
  collection afterwards; \<open>coll_count\<close> is \<^verbatim>\<open>collection.count()\<close>; \<open>coll_query\<close>
  takes the query text and \<^verbatim>\<open>n_results\<close> and raises or answers.
\<close>

record ('st, 'd) store_ops =
  coll_add :: "'st \<Rightarrow> string list \<Rightarrow> chunk_metadata list \<Rightarrow> string list \<Rightarrow> error option \<times> 'st"
  coll_count :: "'st \<Rightarrow> nat"
  coll_query :: "'st \<Rightarrow> string \<Rightarrow> int \<Rightarrow> error + 'd query_result"

record add_result =
  ar_chunks_added :: nat
  ar_total_documents :: nat

text \<open>\<^verbatim>\<open>d.get(key, default)\<close>.\<close>

definition py_get :: "'a option \<Rightarrow> 'a \<Rightarrow> 'a" where
  "py_get v dflt = (case v of Some x \<Rightarrow> x | None \<Rightarrow> dflt)"

text \<open>
  \<^verbatim>\<open>chunk.get("id") or chunk.get("global_chunk_id") or f"chunk_{len(ids)}"\<close>: an
  absent or empty string is falsy.
\<close>

definition chunk_id_of :: "chunk \<Rightarrow> nat \<Rightarrow> string" where
  "chunk_id_of c n_ids =
     (case ch_id c of
        Some i \<Rightarrow>
          (if i \<noteq> [] then i
           else
             (case ch_global_chunk_id c of
                Some g \<Rightarrow> (if g \<noteq> [] then g else ''chunk_'' @ py_str_nat n_ids)
              | None \<Rightarrow> ''chunk_'' @ py_str_nat n_ids))
      | None \<Rightarrow>
          (case ch_global_chunk_id c of
             Some g \<Rightarrow> (if g \<noteq> [] then g else ''chunk_'' @ py_str_nat n_ids)
           | None \<Rightarrow> ''chunk_'' @ py_str_nat n_ids))"

definition chunk_metadata_of :: "chunk \<Rightarrow> chunk_metadata" where
  "chunk_metadata_of c =
     \<lparr>cm_chunk_index = Some (py_get (ch_chunk_index c) 0),
      cm_source = Some (py_get (ch_source c) ''unknown''),
      cm_char_count = Some (py_get (ch_char_count c) 0),
      cm_word_count = Some (py_get (ch_word_count c) 0),
      cm_page_number = Some (py_get (ch_page_number c) 0)\<rparr>"

text \<open>
  The loop of \<open>add_chunks\<close> over the chunks, with its three accumulators;
  \<^verbatim>\<open>chunk["text"]\<close> raises KeyError when the key is absent.
\<close>

fun prepare_chunks ::
  "chunk list \<Rightarrow> string list \<Rightarrow> chunk_metadata list \<Rightarrow> string list \<Rightarrow>
     error + (string list \<times> chunk_metadata list \<times> string list)" where
  "prepare_chunks [] documents metadatas ids = Inr (documents, metadatas, ids)"
| "prepare_chunks (c # cs) documents metadatas ids =
     (case ch_text c of
        None \<Rightarrow> Inl ([CHR 0x27] @ ''text'' @ [CHR 0x27])
      | Some t \<Rightarrow>
          prepare_chunks cs (documents @ [t]) (metadatas @ [chunk_metadata_of c])
            (ids @ [chunk_id_of c (length ids)]))"

definition add_chunks ::
  "('st, 'd) store_ops \<Rightarrow> 'st \<Rightarrow> chunk list \<Rightarrow> (error + add_result) \<times> 'st" where
  "add_chunks ops st chunks =
     (if chunks = [] then (Inl ''No chunks provided'', st)
      else
        (case prepare_chunks chunks [] [] [] of
           Inl e \<Rightarrow> (Inl (''Error adding chunks: '' @ e), st)
         | Inr (documents, metadatas, ids) \<Rightarrow>
             (case coll_add ops st documents metadatas ids of
                (Some e, st') \<Rightarrow> (Inl (''Error adding chunks: '' @ e), st')
              | (None, st') \<Rightarrow>
                  (Inr \<lparr>ar_chunks_added = length chunks,
                        ar_total_documents = coll_count ops st'\<rparr>, st'))))"

record 'd search_hit =
  sh_text :: string
  sh_metadata :: chunk_metadata
  sh_id :: string
  sh_distance :: "'d option"

record 'd search_result =
  sr_query :: string
  sr_results :: "'d search_hit list"
  sr_count :: nat

text \<open>
  The dictionary built at position \<open>i\<close> of the loop in \<open>search\<close>; \<open>docs0\<close> is
  \<^verbatim>\<open>results['documents'][0]\<close>. Each subscript may raise IndexError.
\<close>

definition hit_at :: "'d query_result \<Rightarrow> string list \<Rightarrow> nat \<Rightarrow> error + 'd search_hit" where
  "hit_at results docs0 i =
     bind_err (py_index docs0 i) (\<lambda>t.
     bind_err (py_index (qr_metadatas results) 0) (\<lambda>metas0.
     bind_err (py_index metas0 i) (\<lambda>m.
     bind_err (py_index (qr_ids results) 0) (\<lambda>ids0.
     bind_err (py_index ids0 i) (\<lambda>hid.
     bind_err
       (case qr_distances results of
          None \<Rightarrow> Inr None
        | Some dists \<Rightarrow>
            bind_err (py_index dists 0) (\<lambda>dists0.
            bind_err (py_index dists0 i) (\<lambda>d. Inr (Some d))))
       (\<lambda>dist.
     Inr \<lparr>sh_text = t, sh_metadata = m, sh_id = hid, sh_distance = dist\<rparr>))))))"

fun search_loop ::
  "'d query_result \<Rightarrow> string list \<Rightarrow> nat list \<Rightarrow> 'd search_hit list \<Rightarrow> error + 'd search_hit list" where
  "search_loop results docs0 [] search_results = Inr search_results"
| "search_loop results docs0 (i # rest) search_results =
     (case hit_at results docs0 i of
        Inl e \<Rightarrow> Inl e
      | Inr h \<Rightarrow> search_loop results docs0 rest (search_results @ [h]))"

text \<open>
  The formatting step of \<open>search\<close>: nothing is collected unless
  \<^verbatim>\<open>results['documents']\<close> and \<^verbatim>\<open>results['documents'][0]\<close> are both truthy.
\<close>

definition format_results :: "'d query_result \<Rightarrow> error + 'd search_hit list" where
  "format_results results =
     (case qr_documents results of
        None \<Rightarrow> Inr []
      | Some [] \<Rightarrow> Inr []
      | Some (docs0 # _) \<Rightarrow>
          (if docs0 = [] then Inr []
           else search_loop results docs0 [0..<length docs0] []))"

definition search :: "('st, 'd) store_ops \<Rightarrow> 'st \<Rightarrow> string \<Rightarrow> int \<Rightarrow> error + 'd search_result" where
  "search ops st query top_k =
     (if is_blank query then Inl ''Query is empty''
      else if coll_count ops st = 0
        then Inl ''No documents in vector store. Please add documents first.''
      else
        (case coll_query ops st query (min top_k (int (coll_count ops st))) of
           Inl e \<Rightarrow> Inl (''Error searching: '' @ e)
         | Inr results \<Rightarrow>
             (case format_results results of
                Inl e \<Rightarrow> Inl (''Error searching: '' @ e)
              | Inr search_results \<Rightarrow>
                  Inr \<lparr>sr_query = query,
                       sr_results = search_results,
                       sr_count = length search_results\<rparr>)))"


section \<open>The orchestrator (agent.py)\<close>

record document_info =
  di_filename :: string
  di_num_pages :: nat
  di_total_words :: nat
  di_num_chunks :: nat
  di_chunk_size :: nat

text \<open>
  The state of a \<^verbatim>\<open>LegalRAGAgent\<close>: the collection behind its store adapter and
  \<^verbatim>\<open>self.current_document\<close> (\<open>None\<close> until a document has been processed).
\<close>

record 'st agent =
  vector_store :: 'st
  current_document :: "document_info option"

text \<open>
  The methods of the agent print progress lines inside their
  \<^verbatim>\<open>try: ... except Exception as e:\<close>. The console is outside the repository:
  \<open>console line\<close> is \<^verbatim>\<open>print(line)\<close>, which returns (\<open>None\<close>) or raises
  (\<open>Some e\<close>, as on a standard output that cannot encode the symbols of the
  line). The symbols of the lines that are not in Latin-1 are written as their
  UTF-8 bytes; only the console sees them.
\<close>

type_synonym console = "string \<Rightarrow> error option"

definition page_symbol :: string where
  "page_symbol = [CHR 0xF0, CHR 0x9F, CHR 0x93, CHR 0x84]"

definition lens_symbol :: string where
  "lens_symbol = [CHR 0xF0, CHR 0x9F, CHR 0x94, CHR 0x8D]"

definition check_symbol :: string where
  "check_symbol = [CHR 0xE2, CHR 0x9C, CHR 0x85]"

definition keycap :: string where
  "keycap = [CHR 0xEF, CHR 0xB8, CHR 0x8F, CHR 0xE2, CHR 0x83, CHR 0xA3]"

text \<open>
  One \<^verbatim>\<open>print\<close> inside a \<^verbatim>\<open>try\<close>: when it raises, the handler \<open>on_raise\<close>
  gives the result of the method; otherwise the method goes on with \<open>rest\<close>.
\<close>

definition print_or :: "console \<Rightarrow> string \<Rightarrow> (error \<Rightarrow> 'r) \<Rightarrow> 'r \<Rightarrow> 'r" where
  "print_or console line on_raise rest =
     (case console line of Some e \<Rightarrow> on_raise e | None \<Rightarrow> rest)"

text \<open>
  \<open>process_document\<close> gives the returned dictionary and the agent afterwards. The
  three stages run in the order of the source, each behind its own
  \<^verbatim>\<open>if not result["success"]: return\<close>; the overlap is the constant 200. The
  stages return their failures and do not raise, so the handler of the method,
  \<open>failed\<close>, is reached from the prints only; it gets the agent as it is at
  that point.
\<close>

definition process_document ::
  "console \<Rightarrow> pdf_env \<Rightarrow> splitter \<Rightarrow> ('st, 'd) store_ops \<Rightarrow> 'st agent \<Rightarrow> string \<Rightarrow>
     (error + document_info) \<times> 'st agent" where
  "process_document console env split_text ops ag pdf_path =
     (let failed = (\<lambda>a e. (Inl (''Error processing document: '' @ e), a))
      in
      print_or console (''\<newline>'' @ page_symbol @ '' Processing document: '' @ pdf_path)
        (failed ag)
     (print_or console (''   1'' @ keycap @ '' Extracting text from PDF...'') (failed ag)
     (case extract_text_from_pdf env pdf_path of
        Inl e \<Rightarrow> (Inl (''PDF extraction failed: '' @ e), ag)
      | Inr extract_result \<Rightarrow>
          (let txt = ex_text extract_result;
               metadata = ex_metadata extract_result
           in
           print_or console
             (''      '' @ check_symbol @ '' Extracted '' @ py_str_nat (dm_num_pages metadata) @
              '' pages, '' @ py_str_nat (dm_total_words metadata) @ '' words'')
             (failed ag)
          (print_or console (''   2'' @ keycap @ '' Chunking text...'') (failed ag)
          (let optimal_size = get_optimal_chunk_size txt
           in case chunk_text split_text txt optimal_size 200 (dm_filename metadata) of
                Inl e \<Rightarrow> (Inl (''Chunking failed: '' @ e), ag)
              | Inr chunk_result \<Rightarrow>
                  (let chunks = cr_chunks chunk_result
                   in
                   print_or console
                     (''      '' @ check_symbol @ '' Created '' @ py_str_nat (length chunks) @
                      '' chunks (size: '' @ py_str_nat optimal_size @ '' chars)'')
                     (failed ag)
                  (print_or console (''   3'' @ keycap @ '' Storing in vector database...'')
                     (failed ag)
                  (case add_chunks ops (vector_store ag) chunks of
                     (Inl e, st') \<Rightarrow>
                       (Inl (''Vector storage failed: '' @ e), ag\<lparr>vector_store := st'\<rparr>)
                   | (Inr store_result, st') \<Rightarrow>
                       print_or console
                         (''      '' @ check_symbol @ '' Stored '' @
                          py_str_nat (ar_chunks_added store_result) @ '' chunks in vector DB'')
                         (failed (ag\<lparr>vector_store := st'\<rparr>))
                       (let info =
                              \<lparr>di_filename = dm_filename metadata,
                               di_num_pages = dm_num_pages metadata,
                               di_total_words = dm_total_words metadata,
                               di_num_chunks = length chunks,
                               di_chunk_size = optimal_size\<rparr>
                        in (Inr info,
                            ag\<lparr>vector_store := st', current_document := Some info\<rparr>)))))))))))"

text \<open>
  \<^verbatim>\<open>metadata.get('page_number', 'N/A')\<close> is a number or the default string, and an
  f-string prints either.
\<close>

datatype page_value = PageNumber nat | PageText string

definition page_of :: "chunk_metadata \<Rightarrow> page_value" where
  "page_of m = (case cm_page_number m of Some n \<Rightarrow> PageNumber n | None \<Rightarrow> PageText ''N/A'')"

definition source_of :: "chunk_metadata \<Rightarrow> string" where
  "source_of m = py_get (cm_source m) ''unknown''"

fun format_page :: "page_value \<Rightarrow> string" where
  "format_page (PageNumber n) = py_str_nat n"
| "format_page (PageText s) = s"

definition newline :: string where
  "newline = [CHR 0x0A]"

text \<open>One element of the list comprehension that builds the context.\<close>

definition context_entry :: "'d search_hit \<Rightarrow> string" where
  "context_entry c =
     ''[Source: '' @ source_of (sh_metadata c) @ '', Page: '' @
       format_page (page_of (sh_metadata c)) @ '']'' @ newline @ sh_text c"

definition build_context :: "'d search_hit list \<Rightarrow> string" where
  "build_context relevant_chunks = py_join (newline @ newline) (map context_entry relevant_chunks)"

definition build_prompt :: "string \<Rightarrow> string \<Rightarrow> string" where
  "build_prompt ctx question =
     ''You are a legal document analysis assistant. Answer the question based ONLY on the provided context from the document.''
     @ newline @ newline
     @ ''Context from document:'' @ newline
     @ ctx @ newline @ newline
     @ ''Question: '' @ question @ newline @ newline
     @ ''Instructions:'' @ newline
     @ ''1. Answer based ONLY on the context provided above'' @ newline
     @ ''2. If the answer is not in the context, say '' @ [CHR 0x22]
     @ ''I cannot find this information in the document'' @ [CHR 0x22] @ newline
     @ ''3. Be precise and cite the source/page when possible'' @ newline
     @ ''4. Keep the answer clear and concise'' @ newline @ newline
     @ ''Answer:''"

record source_entry =
  se_text :: string
  se_source :: string
  se_page :: page_value

definition source_entry_of :: "'d search_hit \<Rightarrow> source_entry" where
  "source_entry_of c =
     \<lparr>se_text = take 200 (sh_text c) @ ''...'',
      se_source = source_of (sh_metadata c),
      se_page = page_of (sh_metadata c)\<rparr>"

record answer =
  an_question :: string
  an_answer :: string
  an_sources :: "source_entry list"
  an_num_sources :: nat

text \<open>
  The language model is outside the repository: \<open>llm\<close> is
  \<^verbatim>\<open>self.llm.invoke(prompt).content\<close>, which raises or gives the generated text.
\<close>

type_synonym llm = "string \<Rightarrow> error + string"

definition ask_question ::
  "console \<Rightarrow> ('st, 'd) store_ops \<Rightarrow> llm \<Rightarrow> 'st agent \<Rightarrow> string \<Rightarrow> int \<Rightarrow> error + answer" where
  "ask_question console ops invoke ag question top_k =
     (let failed = (\<lambda>e. Inl (''Error answering question: '' @ e))
      in
      print_or console (''\<newline>'' @ lens_symbol @ '' Question: '' @ question) failed
     (print_or console (''   1'' @ keycap @ '' Searching vector database...'') failed
     (case search ops (vector_store ag) question top_k of
        Inl e \<Rightarrow> Inl e
      | Inr search_result \<Rightarrow>
          (if sr_count search_result = 0
             then Inl ''No relevant information found in the document.''
           else
             (let relevant_chunks = sr_results search_result
              in
              print_or console
                (''      '' @ check_symbol @ '' Found '' @ py_str_nat (length relevant_chunks) @
                 '' relevant chunks'')
                failed
             (let ctx = build_context relevant_chunks;
                  prompt = build_prompt ctx question
              in
              print_or console (''   2'' @ keycap @ '' Generating answer with Gemini...'') failed
             (case invoke prompt of
                Inl e \<Rightarrow> failed e
              | Inr generated \<Rightarrow>
                  print_or console (''      '' @ check_symbol @ '' Answer generated!'') failed
                  (let sources = map source_entry_of relevant_chunks
                   in Inr \<lparr>an_question = question,
                           an_answer = generated,
                           an_sources = sources,
                           an_num_sources = length sources\<rparr>))))))))"

definition key_topics :: "string list" where
  "key_topics =
     [''payment terms'', ''termination clause'', ''confidentiality'', ''liability'',
      ''duration of contract'', ''dispute resolution'']"

definition topic_question :: "string \<Rightarrow> string" where
  "topic_question topic = ''What does the document say about '' @ topic @ ''?''"

text \<open>
  The loop of \<open>extract_key_clauses\<close>: \<open>results\<close> is the dictionary under
  construction, in insertion order; \<^verbatim>\<open>results[topic] = ...\<close> is \<open>AList.update\<close>.
\<close>

fun clause_loop ::
  "(string \<Rightarrow> int \<Rightarrow> error + answer) \<Rightarrow> string list \<Rightarrow> (string \<times> string) list \<Rightarrow>
     (string \<times> string) list" where
  "clause_loop ask [] results = results"
| "clause_loop ask (topic # topics) results =
     (case ask (topic_question topic) 2 of
        Inl e \<Rightarrow> clause_loop ask topics results
      | Inr result \<Rightarrow> clause_loop ask topics (AList.update topic (an_answer result) results))"

definition extract_key_clauses ::
  "console \<Rightarrow> ('st, 'd) store_ops \<Rightarrow> llm \<Rightarrow> 'st agent \<Rightarrow>
     error + (string \<times> string) list" where
  "extract_key_clauses console ops invoke ag =
     Inr (clause_loop (ask_question console ops invoke ag) key_topics [])"


section \<open>The collection behind the adapter\<close>





section \<open>Properties of the chunker\<close>

lemma decimal_digit_inj:
  assumes "a < 10" and "b < 10" and "decimal_digit a = decimal_digit b"
  shows "a = b"
proof -
  have d: "distinct ''0123456789''" by simp
  have l: "length ''0123456789'' = 10" by simp
  from assms(3) have "''0123456789'' ! a = ''0123456789'' ! b"
    by (simp add: decimal_digit_def)
  with d l assms(1,2) show ?thesis
    by (metis nth_eq_iff_index_eq)
qed

lemma py_str_nat_nonempty: "py_str_nat n \<noteq> []"
  by (subst py_str_nat.simps) simp

lemma py_str_nat_inj: "py_str_nat n = py_str_nat m \<Longrightarrow> n = m"
proof (induction n arbitrary: m rule: py_str_nat.induct)
  case (1 n)
  show ?case
  proof (cases "n < 10")
    case small_n: True
    show ?thesis
    proof (cases "m < 10")
      case True
      with small_n "1.prems" show ?thesis
        by (simp add: py_str_nat.simps [of n] py_str_nat.simps [of m] decimal_digit_inj)
    next
      case False
      with small_n "1.prems" py_str_nat_nonempty [of "m div 10"] show ?thesis
        by (simp add: py_str_nat.simps [of n] py_str_nat.simps [of m])
    qed
  next
    case big_n: False
    show ?thesis
    proof (cases "m < 10")
      case True
      with big_n "1.prems" py_str_nat_nonempty [of "n div 10"] show ?thesis
        by (simp add: py_str_nat.simps [of n] py_str_nat.simps [of m])
    next
      case False
      with big_n "1.prems" have q: "py_str_nat (n div 10) = py_str_nat (m div 10)"
        and r: "decimal_digit (n mod 10) = decimal_digit (m mod 10)"
        by (simp_all add: py_str_nat.simps [of n] py_str_nat.simps [of m])
      from "1.IH" [OF big_n q] have "n div 10 = m div 10" .
      moreover from r have "n mod 10 = m mod 10" by (simp add: decimal_digit_inj)
      ultimately show ?thesis by (metis div_mult_mod_eq)
    qed
  qed
qed

lemma chunk_objs_nth:
  assumes "j < length segs"
  shows "map (\<lambda>(i, seg). chunk_obj src n i seg) (enumerate 0 segs) ! j = chunk_obj src n j (segs ! j)"
  using assms by (simp add: nth_enumerate_eq)

lemma chunk_objs_ids:
  "map ch_id (map (\<lambda>(i, seg). chunk_obj src n i seg) (enumerate 0 segs)) =
     map (\<lambda>i. Some (src @ ''_chunk_'' @ py_str_nat (i + 1))) [0..<length segs]"
  by (rule nth_equalityI) (simp_all add: nth_enumerate_eq chunk_obj_def)

lemma chunk_objs_distinct:
  "distinct (map ch_id (map (\<lambda>(i, seg). chunk_obj src n i seg) (enumerate 0 segs)))"
proof -
  have "inj_on (\<lambda>i. Some (src @ ''_chunk_'' @ py_str_nat (i + 1))) (set [0..<length segs])"
    by (rule inj_onI) (auto dest: py_str_nat_inj)
  then show ?thesis
    unfolding chunk_objs_ids by (simp add: distinct_map)
qed

text \<open>
  Claim C3. \<open>get_optimal_chunk_size\<close> depends on the length of its input only and
  is a monotone step function of it: 500 below 5000 characters, 1000 from 5000 up
  to 19999, 1500 from 20000 up to 99999, and 2000 from 100000 on.
\<close>

theorem get_optimal_chunk_size_steps:
  "(length t < 5000 \<longrightarrow> get_optimal_chunk_size t = 500) \<and>
   (5000 \<le> length t \<and> length t < 20000 \<longrightarrow> get_optimal_chunk_size t = 1000) \<and>
   (20000 \<le> length t \<and> length t < 100000 \<longrightarrow> get_optimal_chunk_size t = 1500) \<and>
   (100000 \<le> length t \<longrightarrow> get_optimal_chunk_size t = 2000) \<and>
   (length s = length t \<longrightarrow> get_optimal_chunk_size s = get_optimal_chunk_size t) \<and>
   (length s \<le> length t \<longrightarrow> get_optimal_chunk_size s \<le> get_optimal_chunk_size t)"
  by (simp add: get_optimal_chunk_size_def Let_def)

theorem get_optimal_chunk_size_steps_witness:
  "get_optimal_chunk_size (replicate 4999 (CHR ''a'')) = 500 \<and>
   get_optimal_chunk_size (replicate 5000 (CHR ''a'')) = 1000 \<and>
   get_optimal_chunk_size (replicate 19999 (CHR ''a'')) = 1000 \<and>
   get_optimal_chunk_size (replicate 20000 (CHR ''a'')) = 1500 \<and>
   get_optimal_chunk_size (replicate 100000 (CHR ''a'')) = 2000 \<and>
   get_optimal_chunk_size (replicate 4999 (CHR ''b'')) = get_optimal_chunk_size (replicate 4999 (CHR ''a'')) \<and>
   get_optimal_chunk_size (replicate 4999 (CHR ''a'')) \<le> get_optimal_chunk_size (replicate 5000 (CHR ''a''))"
proof -
  have "get_optimal_chunk_size (replicate 4999 (CHR ''a'')) = 500"
    using get_optimal_chunk_size_steps [of "replicate 4999 (CHR ''a'')"] by simp
  moreover have "get_optimal_chunk_size (replicate 5000 (CHR ''a'')) = 1000"
    using get_optimal_chunk_size_steps [of "replicate 5000 (CHR ''a'')"] by simp
  moreover have "get_optimal_chunk_size (replicate 19999 (CHR ''a'')) = 1000"
    using get_optimal_chunk_size_steps [of "replicate 19999 (CHR ''a'')"] by simp
  moreover have "get_optimal_chunk_size (replicate 20000 (CHR ''a'')) = 1500"
    using get_optimal_chunk_size_steps [of "replicate 20000 (CHR ''a'')"] by simp
  moreover have "get_optimal_chunk_size (replicate 100000 (CHR ''a'')) = 2000"
    using get_optimal_chunk_size_steps [of "replicate 100000 (CHR ''a'')"] by simp
  moreover have "get_optimal_chunk_size (replicate 4999 (CHR ''b'')) =
      get_optimal_chunk_size (replicate 4999 (CHR ''a''))"
    using get_optimal_chunk_size_steps
      [of "replicate 4999 (CHR ''a'')" "replicate 4999 (CHR ''b'')"] by simp
  moreover have "get_optimal_chunk_size (replicate 4999 (CHR ''a'')) \<le>
      get_optimal_chunk_size (replicate 5000 (CHR ''a''))"
    using get_optimal_chunk_size_steps
      [of "replicate 5000 (CHR ''a'')" "replicate 4999 (CHR ''a'')"] by simp
  ultimately show ?thesis by blast
qed

text \<open>
  Claim C6. When \<open>chunk_text\<close> succeeds on the \<open>k\<close> segments the splitter gave,
  the \<open>i\<close>-th passage (counting from 1, in the splitter's order) has the id
  \<open>source_name_chunk_i\<close>, the sequence index \<open>i\<close>, the sibling count \<open>k\<close> and
  the \<open>i\<close>-th segment as its text; hence the ids of one call are pairwise distinct.
\<close>

theorem chunk_text_identity:
  assumes "chunk_text split_text txt chunk_size chunk_overlap source_name = Inr res"
  shows "\<exists>segs. split_text chunk_size chunk_overlap txt = Inr segs \<and>
           length (cr_chunks res) = length segs \<and>
           (\<forall>i. 1 \<le> i \<and> i \<le> length segs \<longrightarrow>
              ch_id (cr_chunks res ! (i - 1)) = Some (source_name @ ''_chunk_'' @ py_str_nat i) \<and>
              ch_chunk_index (cr_chunks res ! (i - 1)) = Some i \<and>
              ch_total_chunks (cr_chunks res ! (i - 1)) = Some (length segs) \<and>
              ch_text (cr_chunks res ! (i - 1)) = Some (segs ! (i - 1))) \<and>
           distinct (map ch_id (cr_chunks res))"
proof -
  from assms obtain segs where
    sp: "split_text chunk_size chunk_overlap txt = Inr segs" and
    cs: "cr_chunks res =
           map (\<lambda>(i, seg). chunk_obj source_name (length segs) i seg) (enumerate 0 segs)"
    by (auto simp: chunk_text_def split: if_splits sum.splits)
  have len: "length (cr_chunks res) = length segs"
    by (simp add: cs)
  have each: "ch_id (cr_chunks res ! (i - 1)) = Some (source_name @ ''_chunk_'' @ py_str_nat i) \<and>
              ch_chunk_index (cr_chunks res ! (i - 1)) = Some i \<and>
              ch_total_chunks (cr_chunks res ! (i - 1)) = Some (length segs) \<and>
              ch_text (cr_chunks res ! (i - 1)) = Some (segs ! (i - 1))"
    if "1 \<le> i \<and> i \<le> length segs" for i
  proof -
    from that have j: "i - 1 < length segs" and s: "Suc (i - Suc 0) = i" by linarith+
    have "cr_chunks res ! (i - 1) = chunk_obj source_name (length segs) (i - 1) (segs ! (i - 1))"
      unfolding cs by (rule chunk_objs_nth [OF j])
    then show ?thesis using that by (simp add: chunk_obj_def s)
  qed
  have "distinct (map ch_id (cr_chunks res))"
    unfolding cs by (rule chunk_objs_distinct)
  with sp len each show ?thesis by blast
qed


theorem chunk_text_identity_witness:
  "\<exists>res. chunk_text (\<lambda>size overlap t. Inr [''ab'', ''cd'']) ''abcd'' 2 0 ''doc'' = Inr res \<and>
         length (cr_chunks res) = 2 \<and>
         ch_id (cr_chunks res ! 0) = Some ''doc_chunk_1'' \<and>
         ch_id (cr_chunks res ! 1) = Some ''doc_chunk_2'' \<and>
         ch_chunk_index (cr_chunks res ! 1) = Some 2 \<and>
         ch_total_chunks (cr_chunks res ! 0) = Some 2 \<and>
         ch_text (cr_chunks res ! 1) = Some ''cd'' \<and>
         distinct (map ch_id (cr_chunks res))"
proof -
  let ?sp = "\<lambda>(size::nat) (overlap::nat) (t::string). (Inr [''ab'', ''cd''] :: error + string list)"
  have "\<not> is_blank ''abcd''"
    by (simp add: is_blank_def py_strip_def is_space_def)
  then obtain res where r: "chunk_text ?sp ''abcd'' 2 0 ''doc'' = Inr res"
    by (simp add: chunk_text_def)
  from chunk_text_identity [OF r] obtain segs where
    s: "?sp 2 0 ''abcd'' = Inr segs" and
    l: "length (cr_chunks res) = length segs" and
    e: "\<forall>i. 1 \<le> i \<and> i \<le> length segs \<longrightarrow>
              ch_id (cr_chunks res ! (i - 1)) = Some (''doc'' @ ''_chunk_'' @ py_str_nat i) \<and>
              ch_chunk_index (cr_chunks res ! (i - 1)) = Some i \<and>
              ch_total_chunks (cr_chunks res ! (i - 1)) = Some (length segs) \<and>
              ch_text (cr_chunks res ! (i - 1)) = Some (segs ! (i - 1))" and
    d: "distinct (map ch_id (cr_chunks res))"
    by blast
  from s have segs: "segs = [''ab'', ''cd'']" by simp
  have one: "py_str_nat (Suc 0) = ''1''" and two: "py_str_nat 2 = ''2''"
    by code_simp+
  from e [rule_format, of 1] have c1: "ch_id (cr_chunks res ! 0) = Some ''doc_chunk_1''"
    "ch_total_chunks (cr_chunks res ! 0) = Some 2"
    by (simp_all add: segs one)
  from e [rule_format, of 2] have c2: "ch_id (cr_chunks res ! 1) = Some ''doc_chunk_2''"
    "ch_chunk_index (cr_chunks res ! 1) = Some 2" "ch_text (cr_chunks res ! 1) = Some ''cd''"
    by (simp_all add: segs two)
  from r l c1 c2 d show ?thesis by (simp add: segs)
qed


section \<open>Properties of the extractor adapter\<close>

lemma py_split_tokens: "list_all is_token (py_split s)"
proof (induction s rule: py_split.induct)
  case (1 s)
  show ?case
  proof (cases "dropWhile is_space s")
    case Nil
    show ?thesis
      by (subst py_split.simps) (simp only: Nil list.case list.pred_inject)
  next
    case (Cons c cs)
    then have "\<not> is_space c"
      by (metis hd_dropWhile list.distinct(1) list.sel(1))
    moreover have "list_all (\<lambda>c. \<not> is_space c) (takeWhile (\<lambda>x. \<not> is_space x) cs)"
      unfolding list_all_iff by (blast dest: set_takeWhileD)
    ultimately have "is_token (c # takeWhile (\<lambda>x. \<not> is_space x) cs)"
      by (simp add: is_token_def)
    with "1.IH" [OF Cons] Cons show ?thesis
      by (simp add: py_split.simps [of s])
  qed
qed

lemma py_split_skip_space: "is_space c \<Longrightarrow> py_split (c # s) = py_split s"
  by (simp add: py_split.simps [of "c # s"] py_split.simps [of s])

lemma py_split_token_then_space:
  assumes "is_token w" and "is_space c"
  shows "py_split (w @ c # s) = w # py_split s"
proof -
  from assms(1) obtain a as where w: "w = a # as" and a: "\<not> is_space a"
    and as: "\<forall>x\<in>set as. \<not> is_space x"
    by (cases w) (auto simp: is_token_def list_all_iff)
  from as assms(2) have t: "takeWhile (\<lambda>x. \<not> is_space x) (as @ c # s) = as"
    by (simp add: takeWhile_append2)
  from as assms(2) have d: "dropWhile (\<lambda>x. \<not> is_space x) (as @ c # s) = c # s"
    by (simp add: dropWhile_append2)
  show ?thesis
    using a by (simp add: w py_split.simps [of "a # as @ c # s"] t d py_split_skip_space assms(2))
qed

lemma py_split_token:
  assumes "is_token w"
  shows "py_split w = [w]"
proof -
  from assms obtain a as where w: "w = a # as" and a: "\<not> is_space a"
    and as: "\<forall>x\<in>set as. \<not> is_space x"
    by (cases w) (auto simp: is_token_def list_all_iff)
  from as have t: "takeWhile (\<lambda>x. \<not> is_space x) as = as"
    and d: "dropWhile (\<lambda>x. \<not> is_space x) as = []"
    by simp_all
  show ?thesis
    using a by (simp add: w py_split.simps [of "a # as"] t d py_split.simps [of "[]"])
qed

lemma space_is_space: "is_space (CHR '' '')"
  by (simp add: is_space_def)

lemma py_split_join:
  "list_all is_token ws \<Longrightarrow> py_split (py_join '' '' ws) = ws"
proof (induction "'' ''" ws rule: py_join.induct)
  case 1
  show ?case by (simp add: py_split.simps [of "[]"])
next
  case (2 x)
  then show ?case by (simp add: py_split_token)
next
  case (3 x y ys)
  then show ?case
    by (simp add: py_split_token_then_space space_is_space)
qed

lemma py_split_clean_text: "py_split (clean_text raw) = py_split raw"
  unfolding clean_text_def by (rule py_split_join) (rule py_split_tokens)

lemma join_tokens_spaces:
  "list_all is_token ws \<Longrightarrow> c \<in> set (py_join '' '' ws) \<Longrightarrow> is_space c \<Longrightarrow> c = CHR '' ''"
  by (induction "'' ''" ws rule: py_join.induct) (auto simp: is_token_def list_all_iff)

lemma clean_text_spaces:
  "c \<in> set (clean_text raw) \<Longrightarrow> is_space c \<Longrightarrow> c = CHR '' ''"
  unfolding clean_text_def using py_split_tokens by (rule join_tokens_spaces)

lemma join_tokens_hd:
  "list_all is_token ws \<Longrightarrow> ws \<noteq> [] \<Longrightarrow>
     py_join '' '' ws \<noteq> [] \<and> \<not> is_space (hd (py_join '' '' ws)) \<and> \<not> is_space (last (py_join '' '' ws))"
proof (induction "'' ''" ws rule: py_join.induct)
  case 1
  then show ?case by simp
next
  case (2 x)
  then show ?case
    by (cases x) (auto simp: is_token_def list_all_iff)
next
  case (3 x y ys)
  then show ?case
    by (cases x) (auto simp: is_token_def list_all_iff)
qed

lemma py_strip_trimmed:
  assumes "s = [] \<or> (\<not> is_space (hd s) \<and> \<not> is_space (last s))"
  shows "py_strip s = s"
proof (cases s)
  case Nil
  then show ?thesis by (simp add: py_strip_def)
next
  case (Cons a as)
  with assms have h: "\<not> is_space a" and l: "\<not> is_space (last s)" by simp_all
  from h Cons have "dropWhile is_space s = s" by simp
  moreover have "dropWhile is_space (rev s) = rev s"
  proof -
    from Cons obtain b bs where rs: "rev s = b # bs"
      by (cases "rev s") simp_all
    then have "b = last s"
      by (metis hd_rev list.sel(1))
    with l show ?thesis by (simp add: rs)
  qed
  ultimately show ?thesis by (simp add: py_strip_def)
qed

lemma py_strip_clean_text: "py_strip (clean_text raw) = clean_text raw"
proof (cases "py_split raw")
  case Nil
  then show ?thesis by (simp add: clean_text_def py_strip_def)
next
  case (Cons w ws)
  with join_tokens_hd [OF py_split_tokens [of raw]] show ?thesis
    unfolding clean_text_def by (intro py_strip_trimmed) simp
qed

lemma extract_pages_Inr:
  "extract_pages pages k acc pt = Inr (all_text, page_texts) \<Longrightarrow>
     \<exists>raws. pages = map Inr raws \<and> all_text = acc @ map clean_text raws \<and>
       (\<forall>n. page_texts n =
          (if k < n \<and> n \<le> k + length raws then Some (clean_text (raws ! (n - k - 1))) else pt n))"
proof (induction pages arbitrary: k acc pt)
  case Nil
  then show ?case by auto
next
  case (Cons page pages)
  from Cons.prems obtain raw where page: "page = Inr raw" and
    rest: "extract_pages pages (k + 1) (acc @ [clean_text raw]) (pt(k + 1 \<mapsto> clean_text raw)) =
             Inr (all_text, page_texts)"
    by (cases page) simp_all
  from Cons.IH [OF rest] obtain raws where
    p: "pages = map Inr raws" and
    a: "all_text = (acc @ [clean_text raw]) @ map clean_text raws" and
    t: "\<forall>n. page_texts n =
          (if k + 1 < n \<and> n \<le> k + 1 + length raws then Some (clean_text (raws ! (n - (k + 1) - 1)))
           else (pt(k + 1 \<mapsto> clean_text raw)) n)"
    by blast
  have "\<forall>n. page_texts n =
          (if k < n \<and> n \<le> k + length (raw # raws)
           then Some (clean_text ((raw # raws) ! (n - k - 1))) else pt n)"
  proof
    fix n
    consider "n \<le> k" | "n = k + 1" | "k + 1 < n" by linarith
    then show "page_texts n =
          (if k < n \<and> n \<le> k + length (raw # raws)
           then Some (clean_text ((raw # raws) ! (n - k - 1))) else pt n)"
    proof cases
      case 1
      then show ?thesis using t by simp
    next
      case 2
      then show ?thesis using t by simp
    next
      case 3
      then obtain j where j: "n - k - 1 = Suc j" "n - (k + 1) - 1 = j"
        by (metis Suc_diff_Suc add.commute diff_diff_left less_diff_conv plus_1_eq_Suc zero_less_diff)
      with 3 show ?thesis using t by simp
    qed
  qed
  with page p a show ?case
    by (intro exI [of _ "raw # raws"]) simp
qed

text \<open>
  Claim C8. When the extraction succeeds on a document of \<open>N\<close> pages, every page
  was read; each page's text is cleaned to its whitespace-delimited tokens joined
  by single spaces (the tokens are kept, nothing is left to strip at either end,
  and the only whitespace left is the single space); the returned text is the
  cleaned page texts joined by a space in page order; \<open>page_texts\<close> maps each page
  number from 1 to \<open>N\<close> to the cleaned text of that page and nothing else; and
  \<open>total_words\<close> is the number of tokens of the returned text.
\<close>

theorem extract_text_from_pdf_success:
  assumes "extract_text_from_pdf env pdf_path = Inr r"
  shows "\<exists>raws. pdf_reader env pdf_path = Inr (map Inr raws) \<and>
           dm_num_pages (ex_metadata r) = length raws \<and>
           ex_text r = py_join '' '' (map clean_text raws) \<and>
           (\<forall>n. ex_page_texts r n =
              (if 1 \<le> n \<and> n \<le> length raws then Some (clean_text (raws ! (n - 1))) else None)) \<and>
           dm_total_words (ex_metadata r) = length (py_split (ex_text r)) \<and>
           (\<forall>raw\<in>set raws.
              clean_text raw = py_join '' '' (py_split raw) \<and>
              py_split (clean_text raw) = py_split raw \<and>
              py_strip (clean_text raw) = clean_text raw \<and>
              (\<forall>c\<in>set (clean_text raw). is_space c \<longrightarrow> c = CHR '' ''))"
proof -
  from assms obtain pages all_text page_texts where
    rd: "pdf_reader env pdf_path = Inr pages" and
    lp: "extract_pages pages 0 [] Map.empty = Inr (all_text, page_texts)" and
    r: "r = \<lparr>ex_text = py_join '' '' all_text,
             ex_page_texts = page_texts,
             ex_metadata =
               \<lparr>dm_filename = basename pdf_path,
                dm_num_pages = length pages,
                dm_total_characters = length (py_join '' '' all_text),
                dm_total_words = length (py_split (py_join '' '' all_text))\<rparr>\<rparr>"
    by (auto simp: extract_text_from_pdf_def Let_def split: if_splits sum.splits prod.splits)
  from extract_pages_Inr [OF lp] obtain raws where
    p: "pages = map Inr raws" and
    a: "all_text = map clean_text raws" and
    t: "\<forall>n. page_texts n =
          (if 0 < n \<and> n \<le> 0 + length raws then Some (clean_text (raws ! (n - 0 - 1))) else None)"
    by auto
  have pt: "\<forall>n. ex_page_texts r n =
      (if 1 \<le> n \<and> n \<le> length raws then Some (clean_text (raws ! (n - 1))) else None)"
    using t by (simp add: r Suc_le_eq)
  have nf: "\<forall>raw\<in>set raws.
              clean_text raw = py_join '' '' (py_split raw) \<and>
              py_split (clean_text raw) = py_split raw \<and>
              py_strip (clean_text raw) = clean_text raw \<and>
              (\<forall>c\<in>set (clean_text raw). is_space c \<longrightarrow> c = CHR '' '')"
    using clean_text_spaces
    by (simp add: clean_text_def [symmetric] py_split_clean_text py_strip_clean_text)
  have "pdf_reader env pdf_path = Inr (map Inr raws)"
    using rd p by simp
  moreover have "dm_num_pages (ex_metadata r) = length raws"
    by (simp add: r p)
  moreover have "ex_text r = py_join '' '' (map clean_text raws)"
    by (simp add: r a)
  moreover have "dm_total_words (ex_metadata r) = length (py_split (ex_text r))"
    by (simp add: r)
  ultimately show ?thesis
    using pt nf by blast
qed

theorem extract_text_from_pdf_success_witness:
  "\<exists>r. extract_text_from_pdf
          \<lparr>path_exists = (\<lambda>p. True),
           pdf_reader = (\<lambda>p. Inr [Inr '' Hello   world\<newline>'', Inr ''foo  bar''])\<rparr>
          ''docs/a.PDF'' = Inr r \<and>
        dm_num_pages (ex_metadata r) = 2 \<and>
        ex_text r = ''Hello world foo bar'' \<and>
        ex_page_texts r 1 = Some ''Hello world'' \<and>
        ex_page_texts r 2 = Some ''foo bar'' \<and>
        ex_page_texts r 3 = None \<and>
        dm_total_words (ex_metadata r) = 4"
proof -
  let ?env = "\<lparr>path_exists = (\<lambda>p. True),
           pdf_reader = (\<lambda>p. Inr [Inr '' Hello   world\<newline>'', Inr ''foo  bar''])\<rparr>"
  have "\<not> isl (extract_text_from_pdf ?env ''docs/a.PDF'')"
    by code_simp
  then obtain r where r: "extract_text_from_pdf ?env ''docs/a.PDF'' = Inr r"
    by (cases "extract_text_from_pdf ?env ''docs/a.PDF''") simp_all
  from extract_text_from_pdf_success [OF r] obtain raws where
    rd: "pdf_reader ?env ''docs/a.PDF'' = Inr (map Inr raws)" and
    n: "dm_num_pages (ex_metadata r) = length raws" and
    t: "ex_text r = py_join '' '' (map clean_text raws)" and
    pt: "\<forall>n. ex_page_texts r n =
              (if 1 \<le> n \<and> n \<le> length raws then Some (clean_text (raws ! (n - 1))) else None)" and
    w: "dm_total_words (ex_metadata r) = length (py_split (ex_text r))"
    by blast
  from rd have "map Inr raws = map Inr ['' Hello   world\<newline>'', ''foo  bar'']"
    by auto
  then have raws: "raws = ['' Hello   world\<newline>'', ''foo  bar'']"
    by (simp only: inj_map_eq_map [OF inj_Inr])
  have c1: "clean_text '' Hello   world\<newline>'' = ''Hello world''"
    and c2: "clean_text ''foo  bar'' = ''foo bar''"
    and c3: "length (py_split ''Hello world foo bar'') = 4"
    by code_simp+
  have tx: "ex_text r = ''Hello world foo bar''"
    using t by (simp add: raws c1 c2)
  have "ex_page_texts r 1 = Some ''Hello world''"
    using pt [rule_format, of 1] by (simp add: raws c1)
  moreover have "ex_page_texts r 2 = Some ''foo bar''"
    using pt [rule_format, of 2] by (simp add: raws c2)
  moreover have "ex_page_texts r 3 = None"
    using pt [rule_format, of 3] by (simp add: raws)
  moreover have "dm_total_words (ex_metadata r) = 4"
    using w by (simp add: tx c3)
  moreover have "dm_num_pages (ex_metadata r) = 2"
    using n by (simp add: raws)
  ultimately show ?thesis
    using r tx by blast
qed


section \<open>Properties of the search and of question answering\<close>

lemma bind_err_Inr: "bind_err m f = Inr y \<longleftrightarrow> (\<exists>x. m = Inr x \<and> f x = Inr y)"
  by (cases m) (simp_all add: bind_err_def)

lemma py_index_Inr: "py_index xs i = Inr x \<longleftrightarrow> i < length xs \<and> x = xs ! i"
  by (auto simp: py_index_def)

text \<open>What a hit that was built at position \<open>i\<close> holds.\<close>

lemma hit_at_Inr:
  assumes "hit_at raw docs0 i = Inr h"
  shows "i < length docs0 \<and> sh_text h = docs0 ! i \<and>
         (\<exists>metas0 mrest. qr_metadatas raw = metas0 # mrest \<and> i < length metas0 \<and>
            sh_metadata h = metas0 ! i) \<and>
         (\<exists>ids0 irest. qr_ids raw = ids0 # irest \<and> i < length ids0 \<and> sh_id h = ids0 ! i)"
  using assms
  by (cases "qr_metadatas raw"; cases "qr_ids raw")
    (auto simp: hit_at_def bind_err_Inr py_index_Inr)


lemma search_loop_Inr:
  "search_loop raw docs0 idxs acc = Inr out \<Longrightarrow>
     \<exists>hs. out = acc @ hs \<and> length hs = length idxs \<and>
       (\<forall>n<length idxs. hit_at raw docs0 (idxs ! n) = Inr (hs ! n))"
proof (induction idxs arbitrary: acc)
  case Nil
  then show ?case by simp
next
  case (Cons i rest)
  from Cons.prems obtain h where h: "hit_at raw docs0 i = Inr h"
    and r: "search_loop raw docs0 rest (acc @ [h]) = Inr out"
    by (cases "hit_at raw docs0 i") simp_all
  from Cons.IH [OF r] obtain hs where o: "out = (acc @ [h]) @ hs"
    and l: "length hs = length rest"
    and e: "\<forall>n<length rest. hit_at raw docs0 (rest ! n) = Inr (hs ! n)"
    by blast
  have "\<forall>n<length (i # rest). hit_at raw docs0 ((i # rest) ! n) = Inr ((h # hs) ! n)"
    using h e by (simp add: nth_Cons split: nat.splits)
  with o l show ?case
    by (intro exI [of _ "h # hs"]) simp
qed


text \<open>A successful formatting step with hits: they are the index's lists, position by position.\<close>

lemma format_results_Inr:
  assumes "format_results raw = Inr hs" and "hs \<noteq> []"
  shows "\<exists>docs0 drest metas0 mrest.
           qr_documents raw = Some (docs0 # drest) \<and> qr_metadatas raw = metas0 # mrest \<and>
           length hs = length docs0 \<and> length docs0 \<le> length metas0 \<and>
           (\<forall>n<length docs0. sh_text (hs ! n) = docs0 ! n \<and> sh_metadata (hs ! n) = metas0 ! n)"
proof -
  from assms obtain docs0 drest where d: "qr_documents raw = Some (docs0 # drest)"
    and ne: "docs0 \<noteq> []"
    and lp: "search_loop raw docs0 [0..<length docs0] [] = Inr hs"
    by (auto simp: format_results_def split: option.splits list.splits if_splits)
  from search_loop_Inr [OF lp] have l: "length hs = length docs0"
    and e: "\<forall>n<length docs0. hit_at raw docs0 n = Inr (hs ! n)"
    by auto
  from ne e have "hit_at raw docs0 0 = Inr (hs ! 0)" by simp
  from hit_at_Inr [OF this] obtain metas0 mrest where m: "qr_metadatas raw = metas0 # mrest"
    by blast
  have each: "n < length metas0 \<and> sh_text (hs ! n) = docs0 ! n \<and> sh_metadata (hs ! n) = metas0 ! n"
    if "n < length docs0" for n
  proof -
    from e that have "hit_at raw docs0 n = Inr (hs ! n)" by simp
    from hit_at_Inr [OF this] m show ?thesis by auto
  qed
  have "length docs0 \<le> length metas0"
  proof (rule ccontr)
    assume "\<not> length docs0 \<le> length metas0"
    then have "length metas0 < length docs0" by simp
    from each [OF this] show False by simp
  qed
  with d m l each show ?thesis by blast
qed


lemma search_Inr:
  assumes "search ops st query top_k = Inr sr"
  shows "\<not> is_blank query \<and> 0 < coll_count ops st \<and>
         (\<exists>raw. coll_query ops st query (min top_k (int (coll_count ops st))) = Inr raw \<and>
            format_results raw = Inr (sr_results sr)) \<and>
         sr_count sr = length (sr_results sr) \<and> sr_query sr = query"
  using assms by (auto simp: search_def split: if_splits sum.splits)

lemma all_dropWhile: "(\<forall>x\<in>set (dropWhile P xs). P x) \<longleftrightarrow> (\<forall>x\<in>set xs. P x)"
proof
  assume a: "\<forall>x\<in>set (dropWhile P xs). P x"
  have "dropWhile P xs = []"
  proof (rule ccontr)
    assume n: "dropWhile P xs \<noteq> []"
    then have "\<not> P (hd (dropWhile P xs))" by (rule hd_dropWhile)
    moreover from n have "hd (dropWhile P xs) \<in> set (dropWhile P xs)" by simp
    ultimately show False using a by blast
  qed
  then show "\<forall>x\<in>set xs. P x" by (simp add: dropWhile_eq_Nil_conv)
next
  assume "\<forall>x\<in>set xs. P x"
  then show "\<forall>x\<in>set (dropWhile P xs). P x" by (blast dest: set_dropWhileD)
qed

text \<open>The guard of the chunker and of the search rejects exactly the texts of whitespace.\<close>

lemma is_blank_iff: "is_blank s \<longleftrightarrow> (\<forall>c\<in>set s. is_space c)"
proof -
  have "py_strip s = [] \<longleftrightarrow> (\<forall>c\<in>set (dropWhile is_space s). is_space c)"
    by (simp add: py_strip_def dropWhile_eq_Nil_conv)
  then show ?thesis
    by (auto simp: is_blank_def all_dropWhile)
qed

text \<open>\<^verbatim>\<open>sep.join(xs)\<close>, element by element: the separator follows all but the last.\<close>

lemma py_join_concat:
  "py_join sep xs =
     concat (map (\<lambda>n. xs ! n @ (if Suc n < length xs then sep else [])) [0..<length xs])"
proof (induction sep xs rule: py_join.induct)
  case (1 sep)
  show ?case by simp
next
  case (2 sep x)
  show ?case by simp
next
  case (3 sep x y ys)
  have "concat (map (\<lambda>n. (x # y # ys) ! n @ (if Suc n < length (x # y # ys) then sep else []))
          [0..<length (x # y # ys)]) =
        (x @ sep) @
        concat (map (\<lambda>n. (y # ys) ! n @ (if Suc n < length (y # ys) then sep else []))
          [0..<length (y # ys)])"
    by (simp add: map_upt_Suc del: upt_Suc)
  with 3 show ?case by simp
qed


lemma build_context_entries:
  assumes "length hs = k"
    and "\<forall>n<k. sh_text (hs ! n) = docs0 ! n \<and> sh_metadata (hs ! n) = metas0 ! n"
  shows "build_context hs =
     concat (map (\<lambda>n. ''[Source: '' @
                      (case cm_source (metas0 ! n) of Some s \<Rightarrow> s | None \<Rightarrow> ''unknown'') @
                      '', Page: '' @
                      (case cm_page_number (metas0 ! n) of
                         Some p \<Rightarrow> py_str_nat p | None \<Rightarrow> ''N/A'') @
                      '']\<newline>'' @ docs0 ! n @
                      (if Suc n < k then ''\<newline>\<newline>'' else []))
               [0..<k])"
proof -
  have "map (\<lambda>n. map context_entry hs ! n @
                 (if Suc n < length (map context_entry hs) then newline @ newline else []))
          [0..<length (map context_entry hs)] =
        map (\<lambda>n. ''[Source: '' @
                      (case cm_source (metas0 ! n) of Some s \<Rightarrow> s | None \<Rightarrow> ''unknown'') @
                      '', Page: '' @
                      (case cm_page_number (metas0 ! n) of
                         Some p \<Rightarrow> py_str_nat p | None \<Rightarrow> ''N/A'') @
                      '']\<newline>'' @ docs0 ! n @
                      (if Suc n < k then ''\<newline>\<newline>'' else []))
          [0..<k]"
    using assms
    by (intro map_cong)
      (auto simp: context_entry_def source_of_def page_of_def py_get_def newline_def
        split: option.splits)
  then show ?thesis
    by (simp only: build_context_def py_join_concat)
qed

lemma build_prompt_literal:
  "build_prompt ctx question =
     ''You are a legal document analysis assistant. Answer the question based ONLY on the provided context from the document.\<newline>\<newline>Context from document:\<newline>'' @
     ctx @ ''\<newline>\<newline>Question: '' @ question @
     ''\<newline>\<newline>Instructions:\<newline>1. Answer based ONLY on the context provided above\<newline>2. If the answer is not in the context, say '' @
     [CHR 0x22] @ ''I cannot find this information in the document'' @ [CHR 0x22] @
     ''\<newline>3. Be precise and cite the source/page when possible\<newline>4. Keep the answer clear and concise\<newline>\<newline>Answer:''"
  by (simp add: build_prompt_def newline_def)

lemma ask_question_Inr:
  assumes "ask_question console ops invoke ag question top_k = Inr a"
  shows "\<exists>sr. search ops (vector_store ag) question top_k = Inr sr \<and> sr_count sr \<noteq> 0 \<and>
           invoke (build_prompt (build_context (sr_results sr)) question) = Inr (an_answer a) \<and>
           an_sources a = map source_entry_of (sr_results sr) \<and>
           an_num_sources a = length (sr_results sr)"
  using assms
  by (auto simp: ask_question_def Let_def print_or_def
      split: option.splits sum.splits if_splits)

text \<open>
  Claim C2. When \<open>ask_question\<close> succeeds, the index answered the query with a
  non-empty ranking (documents \<open>docs0\<close>, metadata \<open>metas0\<close>), and rank order is
  kept end to end. The generator was given the prompt whose context is the
  passages in that order, each as \<open>[Source: S, Page: P]\<close>, a line break and its
  text, with a blank line between two passages, where \<open>S\<close> is the source name of
  the passage (or \<open>unknown\<close>) and \<open>P\<close> its page number in decimal (or \<open>N/A\<close>). The
  \<open>n\<close>-th entry of the returned sources has the source name and the page number
  of the \<open>n\<close>-th passage of the ranking, and its text cut to 200 characters
  with an ellipsis.
\<close>

theorem ask_question_rank_order:
  assumes "ask_question console ops invoke ag question top_k = Inr a"
  shows "\<exists>raw docs0 drest metas0 mrest.
           coll_query ops (vector_store ag) question
             (min top_k (int (coll_count ops (vector_store ag)))) = Inr raw \<and>
           qr_documents raw = Some (docs0 # drest) \<and> qr_metadatas raw = metas0 # mrest \<and>
           docs0 \<noteq> [] \<and> length docs0 \<le> length metas0 \<and>
           invoke
             (''You are a legal document analysis assistant. Answer the question based ONLY on the provided context from the document.\<newline>\<newline>Context from document:\<newline>'' @
              concat (map (\<lambda>n. ''[Source: '' @
                      (case cm_source (metas0 ! n) of Some s \<Rightarrow> s | None \<Rightarrow> ''unknown'') @
                      '', Page: '' @
                      (case cm_page_number (metas0 ! n) of
                         Some p \<Rightarrow> py_str_nat p | None \<Rightarrow> ''N/A'') @
                      '']\<newline>'' @ docs0 ! n @
                      (if Suc n < length docs0 then ''\<newline>\<newline>'' else []))
                [0..<length docs0]) @
              ''\<newline>\<newline>Question: '' @ question @
              ''\<newline>\<newline>Instructions:\<newline>1. Answer based ONLY on the context provided above\<newline>2. If the answer is not in the context, say '' @
              [CHR 0x22] @ ''I cannot find this information in the document'' @ [CHR 0x22] @
              ''\<newline>3. Be precise and cite the source/page when possible\<newline>4. Keep the answer clear and concise\<newline>\<newline>Answer:'')
             = Inr (an_answer a) \<and>
           length (an_sources a) = length docs0 \<and> an_num_sources a = length docs0 \<and>
           (\<forall>n<length docs0.
              se_source (an_sources a ! n) =
                (case cm_source (metas0 ! n) of Some s \<Rightarrow> s | None \<Rightarrow> ''unknown'') \<and>
              se_page (an_sources a ! n) =
                (case cm_page_number (metas0 ! n) of
                   Some p \<Rightarrow> PageNumber p | None \<Rightarrow> PageText ''N/A'') \<and>
              se_text (an_sources a ! n) = take 200 (docs0 ! n) @ ''...'')"
proof -
  from ask_question_Inr [OF assms] obtain sr where
    s: "search ops (vector_store ag) question top_k = Inr sr" and
    c: "sr_count sr \<noteq> 0" and
    g: "invoke (build_prompt (build_context (sr_results sr)) question) = Inr (an_answer a)" and
    src: "an_sources a = map source_entry_of (sr_results sr)" and
    num: "an_num_sources a = length (sr_results sr)"
    by blast
  from search_Inr [OF s] obtain raw where
    q: "coll_query ops (vector_store ag) question
          (min top_k (int (coll_count ops (vector_store ag)))) = Inr raw" and
    f: "format_results raw = Inr (sr_results sr)" and
    cnt: "sr_count sr = length (sr_results sr)"
    by blast
  from c cnt have ne: "sr_results sr \<noteq> []" by auto
  from format_results_Inr [OF f ne] obtain docs0 drest metas0 mrest where
    d: "qr_documents raw = Some (docs0 # drest)" and
    m: "qr_metadatas raw = metas0 # mrest" and
    l: "length (sr_results sr) = length docs0" and
    lm: "length docs0 \<le> length metas0" and
    e: "\<forall>n<length docs0. sh_text (sr_results sr ! n) = docs0 ! n \<and>
          sh_metadata (sr_results sr ! n) = metas0 ! n"
    by blast
  note ctx = build_context_entries [OF l e]
  have inv: "invoke
             (''You are a legal document analysis assistant. Answer the question based ONLY on the provided context from the document.\<newline>\<newline>Context from document:\<newline>'' @
              concat (map (\<lambda>n. ''[Source: '' @
                      (case cm_source (metas0 ! n) of Some s \<Rightarrow> s | None \<Rightarrow> ''unknown'') @
                      '', Page: '' @
                      (case cm_page_number (metas0 ! n) of
                         Some p \<Rightarrow> py_str_nat p | None \<Rightarrow> ''N/A'') @
                      '']\<newline>'' @ docs0 ! n @
                      (if Suc n < length docs0 then ''\<newline>\<newline>'' else []))
                [0..<length docs0]) @
              ''\<newline>\<newline>Question: '' @ question @
              ''\<newline>\<newline>Instructions:\<newline>1. Answer based ONLY on the context provided above\<newline>2. If the answer is not in the context, say '' @
              [CHR 0x22] @ ''I cannot find this information in the document'' @ [CHR 0x22] @
              ''\<newline>3. Be precise and cite the source/page when possible\<newline>4. Keep the answer clear and concise\<newline>\<newline>Answer:'')
             = Inr (an_answer a)"
    using g unfolding build_prompt_literal ctx .
  have each: "\<forall>n<length docs0.
              se_source (an_sources a ! n) =
                (case cm_source (metas0 ! n) of Some s \<Rightarrow> s | None \<Rightarrow> ''unknown'') \<and>
              se_page (an_sources a ! n) =
                (case cm_page_number (metas0 ! n) of
                   Some p \<Rightarrow> PageNumber p | None \<Rightarrow> PageText ''N/A'') \<and>
              se_text (an_sources a ! n) = take 200 (docs0 ! n) @ ''...''"
    using l e by (simp add: src source_entry_of_def source_of_def page_of_def py_get_def)
  from ne l have "docs0 \<noteq> []" by auto
  moreover have "length (an_sources a) = length docs0" by (simp add: src l)
  moreover have "an_num_sources a = length docs0" by (simp add: num l)
  ultimately show ?thesis
    using q d m lm inv each by blast
qed

theorem ask_question_rank_order_witness:
  "\<exists>a. ask_question (\<lambda>line. None)
          \<lparr>coll_add = (\<lambda>st d m i. (None, st)),
           coll_count = (\<lambda>st. 2),
           coll_query = (\<lambda>st q k. Inr
             \<lparr>qr_ids = [[''doc_chunk_2'', ''doc_chunk_1'']],
              qr_documents = Some [[''Notice is 30 days.'', ''Fees are due monthly.'']],
              qr_metadatas =
                [[\<lparr>cm_chunk_index = Some 2, cm_source = Some ''doc'', cm_char_count = Some 18,
                   cm_word_count = Some 4, cm_page_number = Some 7\<rparr>,
                  \<lparr>cm_chunk_index = None, cm_source = None, cm_char_count = None,
                   cm_word_count = None, cm_page_number = None\<rparr>]],
              qr_distances = Some [[1 :: nat, 4]]\<rparr>)\<rparr>
          (\<lambda>prompt. Inr prompt)
          \<lparr>vector_store = (), current_document = None\<rparr>
          ''What is the notice period?'' 3 = Inr a \<and>
        an_answer a =
          ''You are a legal document analysis assistant. Answer the question based ONLY on the provided context from the document.\<newline>\<newline>Context from document:\<newline>[Source: doc, Page: 7]\<newline>Notice is 30 days.\<newline>\<newline>[Source: unknown, Page: N/A]\<newline>Fees are due monthly.\<newline>\<newline>Question: What is the notice period?\<newline>\<newline>Instructions:\<newline>1. Answer based ONLY on the context provided above\<newline>2. If the answer is not in the context, say '' @
          [CHR 0x22] @ ''I cannot find this information in the document'' @ [CHR 0x22] @
          ''\<newline>3. Be precise and cite the source/page when possible\<newline>4. Keep the answer clear and concise\<newline>\<newline>Answer:'' \<and>
        an_num_sources a = 2 \<and>
        se_source (an_sources a ! 0) = ''doc'' \<and>
        se_page (an_sources a ! 0) = PageNumber 7 \<and>
        se_text (an_sources a ! 0) = ''Notice is 30 days....'' \<and>
        se_source (an_sources a ! 1) = ''unknown'' \<and>
        se_page (an_sources a ! 1) = PageText ''N/A''"
proof -
  let ?raw = "\<lparr>qr_ids = [[''doc_chunk_2'', ''doc_chunk_1'']],
              qr_documents = Some [[''Notice is 30 days.'', ''Fees are due monthly.'']],
              qr_metadatas =
                [[\<lparr>cm_chunk_index = Some 2, cm_source = Some ''doc'', cm_char_count = Some 18,
                   cm_word_count = Some 4, cm_page_number = Some 7\<rparr>,
                  \<lparr>cm_chunk_index = None, cm_source = None, cm_char_count = None,
                   cm_word_count = None, cm_page_number = None\<rparr>]],
              qr_distances = Some [[1 :: nat, 4]]\<rparr>"
  let ?ops = "\<lparr>coll_add = (\<lambda>(st :: unit) (d :: string list) (m :: chunk_metadata list)
                    (i :: string list). (None :: error option, st)),
           coll_count = (\<lambda>st. 2),
           coll_query = (\<lambda>st (q :: string) (k :: int). (Inr ?raw :: error + nat query_result))\<rparr>"
  let ?inv = "\<lambda>prompt :: string. (Inr prompt :: error + string)"
  let ?quiet = "\<lambda>line :: string. (None :: error option)"
  let ?ag = "\<lparr>vector_store = (), current_document = None\<rparr>"
  have "\<not> isl (ask_question ?quiet ?ops ?inv ?ag ''What is the notice period?'' 3)"
    by code_simp
  then obtain a where
    a: "ask_question ?quiet ?ops ?inv ?ag ''What is the notice period?'' 3 = Inr a"
    by (cases "ask_question ?quiet ?ops ?inv ?ag ''What is the notice period?'' 3") simp_all
  have seven: "py_str_nat 7 = ''7''" by code_simp
  from ask_question_rank_order [OF a] obtain raw docs0 drest metas0 mrest where
    q: "coll_query ?ops (vector_store ?ag) ''What is the notice period?''
          (min 3 (int (coll_count ?ops (vector_store ?ag)))) = Inr raw" and
    d: "qr_documents raw = Some (docs0 # drest)" and
    m: "qr_metadatas raw = metas0 # mrest" and
    p: "?inv
             (''You are a legal document analysis assistant. Answer the question based ONLY on the provided context from the document.\<newline>\<newline>Context from document:\<newline>'' @
              concat (map (\<lambda>n. ''[Source: '' @
                      (case cm_source (metas0 ! n) of Some s \<Rightarrow> s | None \<Rightarrow> ''unknown'') @
                      '', Page: '' @
                      (case cm_page_number (metas0 ! n) of
                         Some p \<Rightarrow> py_str_nat p | None \<Rightarrow> ''N/A'') @
                      '']\<newline>'' @ docs0 ! n @
                      (if Suc n < length docs0 then ''\<newline>\<newline>'' else []))
                [0..<length docs0]) @
              ''\<newline>\<newline>Question: '' @ ''What is the notice period?'' @
              ''\<newline>\<newline>Instructions:\<newline>1. Answer based ONLY on the context provided above\<newline>2. If the answer is not in the context, say '' @
              [CHR 0x22] @ ''I cannot find this information in the document'' @ [CHR 0x22] @
              ''\<newline>3. Be precise and cite the source/page when possible\<newline>4. Keep the answer clear and concise\<newline>\<newline>Answer:'')
             = Inr (an_answer a)" and
    n: "an_num_sources a = length docs0" and
    e: "\<forall>n<length docs0.
              se_source (an_sources a ! n) =
                (case cm_source (metas0 ! n) of Some s \<Rightarrow> s | None \<Rightarrow> ''unknown'') \<and>
              se_page (an_sources a ! n) =
                (case cm_page_number (metas0 ! n) of
                   Some p \<Rightarrow> PageNumber p | None \<Rightarrow> PageText ''N/A'') \<and>
              se_text (an_sources a ! n) = take 200 (docs0 ! n) @ ''...''"
    by blast
  from q have raw: "raw = ?raw" by simp
  from d have docs0: "docs0 = [''Notice is 30 days.'', ''Fees are due monthly.'']"
    by (simp add: raw)
  from m have metas0: "metas0 =
      [\<lparr>cm_chunk_index = Some 2, cm_source = Some ''doc'', cm_char_count = Some 18,
        cm_word_count = Some 4, cm_page_number = Some 7\<rparr>,
       \<lparr>cm_chunk_index = None, cm_source = None, cm_char_count = None,
        cm_word_count = None, cm_page_number = None\<rparr>]"
    by (simp add: raw)
  from p have prompt: "an_answer a =
          ''You are a legal document analysis assistant. Answer the question based ONLY on the provided context from the document.\<newline>\<newline>Context from document:\<newline>[Source: doc, Page: 7]\<newline>Notice is 30 days.\<newline>\<newline>[Source: unknown, Page: N/A]\<newline>Fees are due monthly.\<newline>\<newline>Question: What is the notice period?\<newline>\<newline>Instructions:\<newline>1. Answer based ONLY on the context provided above\<newline>2. If the answer is not in the context, say '' @
          [CHR 0x22] @ ''I cannot find this information in the document'' @ [CHR 0x22] @
          ''\<newline>3. Be precise and cite the source/page when possible\<newline>4. Keep the answer clear and concise\<newline>\<newline>Answer:''"
    by (simp add: docs0 metas0 seven)
  from e [rule_format, of 0] have
    "se_source (an_sources a ! 0) = ''doc'' \<and> se_page (an_sources a ! 0) = PageNumber 7 \<and>
     se_text (an_sources a ! 0) = ''Notice is 30 days....''"
    by (simp add: docs0 metas0)
  moreover from e [rule_format, of 1] have
    "se_source (an_sources a ! 1) = ''unknown'' \<and> se_page (an_sources a ! 1) = PageText ''N/A''"
    by (simp add: docs0 metas0)
  moreover from n have "an_num_sources a = 2"
    by (simp add: docs0)
  ultimately show ?thesis
    using a prompt by blast
qed






text \<open>
  Claim C5, as amended. Provided that no write to the console raises,
  \<open>ask_question\<close> fails in a fixed order: a blank question fails with the message
  of the empty query, whatever the collection holds; a question that is not
  blank fails on an empty collection with the message of the empty store,
  whatever the nearest-neighbour query would have answered; and on a non-empty
  collection whose query succeeds without a hit it fails with the message that
  nothing relevant was found. The three messages differ. When the console
  rejects every write, the call fails with \<open>Error answering question:\<close> and the
  message of the console.
\<close>

theorem ask_question_failure_order:
  "((\<forall>line. console line = None) \<and> (\<forall>c\<in>set question. is_space c) \<longrightarrow>
      ask_question console ops invoke ag question top_k = Inl ''Query is empty'') \<and>
   ((\<forall>line. console line = None) \<and> (\<exists>c\<in>set question. \<not> is_space c) \<and>
    coll_count ops (vector_store ag) = 0 \<longrightarrow>
      (\<forall>nearest. ask_question console (ops\<lparr>coll_query := nearest\<rparr>) invoke ag question top_k =
         Inl ''No documents in vector store. Please add documents first.'')) \<and>
   ((\<forall>line. console line = None) \<and> (\<exists>c\<in>set question. \<not> is_space c) \<and>
    0 < coll_count ops (vector_store ag) \<and>
    coll_query ops (vector_store ag) question
      (min top_k (int (coll_count ops (vector_store ag)))) = Inr raw \<and>
    (qr_documents raw = None \<or> qr_documents raw = Some [] \<or>
     (\<exists>rest. qr_documents raw = Some ([] # rest))) \<longrightarrow>
      ask_question console ops invoke ag question top_k =
        Inl ''No relevant information found in the document.'') \<and>
   ''No relevant information found in the document.'' \<noteq>
     ''No documents in vector store. Please add documents first.'' \<and>
   ''Query is empty'' \<noteq> ''No documents in vector store. Please add documents first.'' \<and>
   ''Query is empty'' \<noteq> ''No relevant information found in the document.'' \<and>
   (\<forall>e. (\<forall>line. console line = Some e) \<longrightarrow>
      ask_question console ops invoke ag question top_k =
        Inl (''Error answering question: '' @ e))"
proof (intro conjI impI allI)
  assume "(\<forall>line. console line = None) \<and> (\<forall>c\<in>set question. is_space c)"
  then show "ask_question console ops invoke ag question top_k = Inl ''Query is empty''"
    by (simp add: ask_question_def print_or_def search_def is_blank_iff)
next
  fix nearest
  assume "(\<forall>line. console line = None) \<and> (\<exists>c\<in>set question. \<not> is_space c) \<and>
    coll_count ops (vector_store ag) = 0"
  then show "ask_question console (ops\<lparr>coll_query := nearest\<rparr>) invoke ag question top_k =
         Inl ''No documents in vector store. Please add documents first.''"
    by (simp add: ask_question_def print_or_def search_def is_blank_iff)
next
  assume a: "(\<forall>line. console line = None) \<and> (\<exists>c\<in>set question. \<not> is_space c) \<and>
    0 < coll_count ops (vector_store ag) \<and>
    coll_query ops (vector_store ag) question
      (min top_k (int (coll_count ops (vector_store ag)))) = Inr raw \<and>
    (qr_documents raw = None \<or> qr_documents raw = Some [] \<or>
     (\<exists>rest. qr_documents raw = Some ([] # rest)))"
  then have "format_results raw = Inr []"
    by (auto simp: format_results_def)
  with a show "ask_question console ops invoke ag question top_k =
        Inl ''No relevant information found in the document.''"
    by (simp add: ask_question_def print_or_def search_def is_blank_iff)
next
  fix e
  assume "\<forall>line. console line = Some e"
  then show "ask_question console ops invoke ag question top_k =
        Inl (''Error answering question: '' @ e)"
    by (simp add: ask_question_def print_or_def)
qed simp_all

theorem ask_question_failure_order_witness:
  "ask_question (\<lambda>line. None)
     \<lparr>coll_add = (\<lambda>st d m i. (None, st)),
      coll_count = (\<lambda>st. 4),
      coll_query = (\<lambda>st q k. (Inl ''the index was queried'' :: error + nat query_result))\<rparr>
     (\<lambda>prompt. Inl ''the generator was called'')
     \<lparr>vector_store = (), current_document = None\<rparr>
     ''  '' 3 = Inl ''Query is empty'' \<and>
   ask_question (\<lambda>line. None)
     \<lparr>coll_add = (\<lambda>st d m i. (None, st)),
      coll_count = (\<lambda>st. 0),
      coll_query = (\<lambda>st q k. (Inl ''the index was queried'' :: error + nat query_result))\<rparr>
     (\<lambda>prompt. Inl ''the generator was called'')
     \<lparr>vector_store = (), current_document = None\<rparr>
     ''What is the notice period?'' 3 =
       Inl ''No documents in vector store. Please add documents first.'' \<and>
   ask_question (\<lambda>line. None)
     \<lparr>coll_add = (\<lambda>st d m i. (None, st)),
      coll_count = (\<lambda>st. 4),
      coll_query = (\<lambda>st q k. Inr
        \<lparr>qr_ids = [[]], qr_documents = Some [[]], qr_metadatas = [[]],
         qr_distances = Some [[] :: nat list]\<rparr>)\<rparr>
     (\<lambda>prompt. Inl ''the generator was called'')
     \<lparr>vector_store = (), current_document = None\<rparr>
     ''What is the notice period?'' 3 =
       Inl ''No relevant information found in the document.'' \<and>
   ask_question (\<lambda>line. Some ''cannot encode'')
     \<lparr>coll_add = (\<lambda>st d m i. (None, st)),
      coll_count = (\<lambda>st. 4),
      coll_query = (\<lambda>st q k. (Inl ''the index was queried'' :: error + nat query_result))\<rparr>
     (\<lambda>prompt. Inl ''the generator was called'')
     \<lparr>vector_store = (), current_document = None\<rparr>
     ''What is the notice period?'' 3 = Inl ''Error answering question: cannot encode''"
proof -
  let ?raw = "\<lparr>qr_ids = [[]], qr_documents = Some [[]], qr_metadatas = [[]],
         qr_distances = Some [[] :: nat list]\<rparr>"
  let ?add = "\<lambda>(st :: unit) (d :: string list) (m :: chunk_metadata list)
                    (i :: string list). (None :: error option, st)"
  let ?err = "\<lambda>(st :: unit) (q :: string) (k :: int).
        (Inl ''the index was queried'' :: error + nat query_result)"
  let ?ops0 = "\<lparr>coll_add = ?add, coll_count = (\<lambda>st. 0), coll_query = ?err\<rparr>"
  let ?ops4 = "\<lparr>coll_add = ?add, coll_count = (\<lambda>st. 4), coll_query = ?err\<rparr>"
  let ?hit0 = "\<lparr>coll_add = ?add, coll_count = (\<lambda>st. 4),
      coll_query = (\<lambda>(st :: unit) (q :: string) (k :: int). (Inr ?raw :: error + nat query_result))\<rparr>"
  let ?inv = "\<lambda>prompt :: string. (Inl ''the generator was called'' :: error + string)"
  let ?quiet = "\<lambda>line :: string. (None :: error option)"
  let ?loud = "\<lambda>line :: string. Some ''cannot encode''"
  let ?ag = "\<lparr>vector_store = (), current_document = None\<rparr>"
  have b: "\<exists>c\<in>set ''What is the notice period?''. \<not> is_space c"
    and w: "\<forall>c\<in>set ''  ''. is_space c"
    by (simp_all add: is_space_def)
  have zero: "ask_question ?quiet ?ops4 ?inv ?ag ''  '' 3 = Inl ''Query is empty''"
    using ask_question_failure_order
      [of ?quiet "''  ''" ?ops4 ?inv ?ag 3 ?raw, THEN conjunct1] w
    by simp
  have "ask_question ?quiet (?ops0\<lparr>coll_query := ?err\<rparr>) ?inv ?ag
          ''What is the notice period?'' 3 =
            Inl ''No documents in vector store. Please add documents first.''"
    using ask_question_failure_order
      [of ?quiet "''What is the notice period?''" ?ops0 ?inv ?ag 3 ?raw,
        THEN conjunct2, THEN conjunct1] b
    by simp
  then have one: "ask_question ?quiet ?ops0 ?inv ?ag ''What is the notice period?'' 3 =
            Inl ''No documents in vector store. Please add documents first.''"
    by simp
  have two: "ask_question ?quiet ?hit0 ?inv ?ag ''What is the notice period?'' 3 =
            Inl ''No relevant information found in the document.''"
    using ask_question_failure_order
      [of ?quiet "''What is the notice period?''" ?hit0 ?inv ?ag 3 ?raw,
        THEN conjunct2, THEN conjunct2, THEN conjunct1] b
    by simp
  have "\<forall>e. (\<forall>line. ?loud line = Some e) \<longrightarrow>
      ask_question ?loud ?ops4 ?inv ?ag ''What is the notice period?'' 3 =
        Inl (''Error answering question: '' @ e)"
    using ask_question_failure_order
      [of ?loud "''What is the notice period?''" ?ops4 ?inv ?ag 3 ?raw]
    by (elim conjE)
  then have three: "ask_question ?loud ?ops4 ?inv ?ag ''What is the notice period?'' 3 =
        Inl ''Error answering question: cannot encode''"
    by simp
  from zero one two three show ?thesis by (intro conjI)
qed

text \<open>
  Claim C5 as stated gives the failure of the empty store for every call on an
  empty collection. A blank question fails earlier, with the message of the
  empty query; and when the console cannot be written to, the call fails before
  it looks at the collection.
\<close>

theorem ask_question_order_counterexample:
  "coll_count
     \<lparr>coll_add = (\<lambda>st d m i. (None, st)),
      coll_count = (\<lambda>st. 0),
      coll_query = (\<lambda>st q k. (Inl ''the index was queried'' :: error + nat query_result))\<rparr>
     (vector_store \<lparr>vector_store = (), current_document = None\<rparr>) = 0 \<and>
   ask_question (\<lambda>line. None)
     \<lparr>coll_add = (\<lambda>st d m i. (None, st)),
      coll_count = (\<lambda>st. 0),
      coll_query = (\<lambda>st q k. (Inl ''the index was queried'' :: error + nat query_result))\<rparr>
     (\<lambda>prompt. Inl ''the generator was called'')
     \<lparr>vector_store = (), current_document = None\<rparr>
     '''' 3 = Inl ''Query is empty'' \<and>
   ask_question (\<lambda>line. Some ''cannot encode'')
     \<lparr>coll_add = (\<lambda>st d m i. (None, st)),
      coll_count = (\<lambda>st. 0),
      coll_query = (\<lambda>st q k. (Inl ''the index was queried'' :: error + nat query_result))\<rparr>
     (\<lambda>prompt. Inl ''the generator was called'')
     \<lparr>vector_store = (), current_document = None\<rparr>
     ''What is the notice period?'' 3 = Inl ''Error answering question: cannot encode'' \<and>
   ''Query is empty'' \<noteq> ''No documents in vector store. Please add documents first.'' \<and>
   ''Error answering question: cannot encode'' \<noteq>
     ''No documents in vector store. Please add documents first.''"
  by (simp add: ask_question_def print_or_def search_def is_blank_def)


section \<open>Properties of document processing and clause extraction\<close>

text \<open>
  Claim C7, as amended. Provided that no write to the console raises,
  \<open>process_document\<close> runs extraction, then chunking, then storage: a failing
  extraction ends the run with \<open>PDF extraction failed:\<close> and its message,
  whatever the later stages would do; a failing chunking with
  \<open>Chunking failed:\<close>; a failing storage with \<open>Vector storage failed:\<close>; and when
  all three stages succeed the summary is built, stored as the current document
  and returned. When the console rejects every write, the run ends before any
  stage with \<open>Error processing document:\<close> and the message of the console.
  Whatever the console does, a failure is one of these four kinds, and a summary
  is returned, and then stored, only when all three stages succeeded.
\<close>

theorem process_document_stages:
  "((\<forall>line. console line = None) \<longrightarrow>
      (\<forall>e. extract_text_from_pdf env pdf_path = Inl e \<longrightarrow>
         process_document console env split_text ops ag pdf_path =
           (Inl (''PDF extraction failed: '' @ e), ag)) \<and>
      (\<forall>ex e.
         extract_text_from_pdf env pdf_path = Inr ex \<and>
         chunk_text split_text (ex_text ex) (get_optimal_chunk_size (ex_text ex)) 200
           (dm_filename (ex_metadata ex)) = Inl e \<longrightarrow>
         process_document console env split_text ops ag pdf_path =
           (Inl (''Chunking failed: '' @ e), ag)) \<and>
      (\<forall>ex cr e st'.
         extract_text_from_pdf env pdf_path = Inr ex \<and>
         chunk_text split_text (ex_text ex) (get_optimal_chunk_size (ex_text ex)) 200
           (dm_filename (ex_metadata ex)) = Inr cr \<and>
         add_chunks ops (vector_store ag) (cr_chunks cr) = (Inl e, st') \<longrightarrow>
         process_document console env split_text ops ag pdf_path =
           (Inl (''Vector storage failed: '' @ e), ag\<lparr>vector_store := st'\<rparr>)) \<and>
      (\<forall>ex cr sr st'.
         extract_text_from_pdf env pdf_path = Inr ex \<and>
         chunk_text split_text (ex_text ex) (get_optimal_chunk_size (ex_text ex)) 200
           (dm_filename (ex_metadata ex)) = Inr cr \<and>
         add_chunks ops (vector_store ag) (cr_chunks cr) = (Inr sr, st') \<longrightarrow>
         process_document console env split_text ops ag pdf_path =
           (Inr \<lparr>di_filename = dm_filename (ex_metadata ex),
                 di_num_pages = dm_num_pages (ex_metadata ex),
                 di_total_words = dm_total_words (ex_metadata ex),
                 di_num_chunks = length (cr_chunks cr),
                 di_chunk_size = get_optimal_chunk_size (ex_text ex)\<rparr>,
            ag\<lparr>vector_store := st',
               current_document :=
                 Some \<lparr>di_filename = dm_filename (ex_metadata ex),
                       di_num_pages = dm_num_pages (ex_metadata ex),
                       di_total_words = dm_total_words (ex_metadata ex),
                       di_num_chunks = length (cr_chunks cr),
                       di_chunk_size = get_optimal_chunk_size (ex_text ex)\<rparr>\<rparr>))) \<and>
   (\<forall>e. (\<forall>line. console line = Some e) \<longrightarrow>
      process_document console env split_text ops ag pdf_path =
        (Inl (''Error processing document: '' @ e), ag)) \<and>
   (\<forall>msg ag'.
      process_document console env split_text ops ag pdf_path = (Inl msg, ag') \<longrightarrow>
      (\<exists>e. msg = ''PDF extraction failed: '' @ e \<and>
           extract_text_from_pdf env pdf_path = Inl e) \<or>
      (\<exists>ex e. msg = ''Chunking failed: '' @ e \<and>
           extract_text_from_pdf env pdf_path = Inr ex \<and>
           chunk_text split_text (ex_text ex) (get_optimal_chunk_size (ex_text ex)) 200
             (dm_filename (ex_metadata ex)) = Inl e) \<or>
      (\<exists>ex cr e. msg = ''Vector storage failed: '' @ e \<and>
           extract_text_from_pdf env pdf_path = Inr ex \<and>
           chunk_text split_text (ex_text ex) (get_optimal_chunk_size (ex_text ex)) 200
             (dm_filename (ex_metadata ex)) = Inr cr \<and>
           fst (add_chunks ops (vector_store ag) (cr_chunks cr)) = Inl e) \<or>
      (\<exists>line e. msg = ''Error processing document: '' @ e \<and> console line = Some e)) \<and>
   (\<forall>info ag'.
      process_document console env split_text ops ag pdf_path = (Inr info, ag') \<longrightarrow>
      current_document ag' = Some info \<and>
      (\<exists>ex cr sr st'.
         extract_text_from_pdf env pdf_path = Inr ex \<and>
         chunk_text split_text (ex_text ex) (get_optimal_chunk_size (ex_text ex)) 200
           (dm_filename (ex_metadata ex)) = Inr cr \<and>
         add_chunks ops (vector_store ag) (cr_chunks cr) = (Inr sr, st')))"
proof (intro conjI)
  show "(\<forall>line. console line = None) \<longrightarrow>
      (\<forall>e. extract_text_from_pdf env pdf_path = Inl e \<longrightarrow>
         process_document console env split_text ops ag pdf_path =
           (Inl (''PDF extraction failed: '' @ e), ag)) \<and>
      (\<forall>ex e.
         extract_text_from_pdf env pdf_path = Inr ex \<and>
         chunk_text split_text (ex_text ex) (get_optimal_chunk_size (ex_text ex)) 200
           (dm_filename (ex_metadata ex)) = Inl e \<longrightarrow>
         process_document console env split_text ops ag pdf_path =
           (Inl (''Chunking failed: '' @ e), ag)) \<and>
      (\<forall>ex cr e st'.
         extract_text_from_pdf env pdf_path = Inr ex \<and>
         chunk_text split_text (ex_text ex) (get_optimal_chunk_size (ex_text ex)) 200
           (dm_filename (ex_metadata ex)) = Inr cr \<and>
         add_chunks ops (vector_store ag) (cr_chunks cr) = (Inl e, st') \<longrightarrow>
         process_document console env split_text ops ag pdf_path =
           (Inl (''Vector storage failed: '' @ e), ag\<lparr>vector_store := st'\<rparr>)) \<and>
      (\<forall>ex cr sr st'.
         extract_text_from_pdf env pdf_path = Inr ex \<and>
         chunk_text split_text (ex_text ex) (get_optimal_chunk_size (ex_text ex)) 200
           (dm_filename (ex_metadata ex)) = Inr cr \<and>
         add_chunks ops (vector_store ag) (cr_chunks cr) = (Inr sr, st') \<longrightarrow>
         process_document console env split_text ops ag pdf_path =
           (Inr \<lparr>di_filename = dm_filename (ex_metadata ex),
                 di_num_pages = dm_num_pages (ex_metadata ex),
                 di_total_words = dm_total_words (ex_metadata ex),
                 di_num_chunks = length (cr_chunks cr),
                 di_chunk_size = get_optimal_chunk_size (ex_text ex)\<rparr>,
            ag\<lparr>vector_store := st',
               current_document :=
                 Some \<lparr>di_filename = dm_filename (ex_metadata ex),
                       di_num_pages = dm_num_pages (ex_metadata ex),
                       di_total_words = dm_total_words (ex_metadata ex),
                       di_num_chunks = length (cr_chunks cr),
                       di_chunk_size = get_optimal_chunk_size (ex_text ex)\<rparr>\<rparr>))"
    by (simp add: process_document_def Let_def print_or_def)
next
  show "\<forall>e. (\<forall>line. console line = Some e) \<longrightarrow>
      process_document console env split_text ops ag pdf_path =
        (Inl (''Error processing document: '' @ e), ag)"
    by (simp add: process_document_def Let_def print_or_def)
next
  show "\<forall>msg ag'.
      process_document console env split_text ops ag pdf_path = (Inl msg, ag') \<longrightarrow>
      (\<exists>e. msg = ''PDF extraction failed: '' @ e \<and>
           extract_text_from_pdf env pdf_path = Inl e) \<or>
      (\<exists>ex e. msg = ''Chunking failed: '' @ e \<and>
           extract_text_from_pdf env pdf_path = Inr ex \<and>
           chunk_text split_text (ex_text ex) (get_optimal_chunk_size (ex_text ex)) 200
             (dm_filename (ex_metadata ex)) = Inl e) \<or>
      (\<exists>ex cr e. msg = ''Vector storage failed: '' @ e \<and>
           extract_text_from_pdf env pdf_path = Inr ex \<and>
           chunk_text split_text (ex_text ex) (get_optimal_chunk_size (ex_text ex)) 200
             (dm_filename (ex_metadata ex)) = Inr cr \<and>
           fst (add_chunks ops (vector_store ag) (cr_chunks cr)) = Inl e) \<or>
      (\<exists>line e. msg = ''Error processing document: '' @ e \<and> console line = Some e)"
    unfolding process_document_def Let_def print_or_def
    by (fastforce split: option.splits sum.splits prod.splits)
next
  show "\<forall>info ag'.
      process_document console env split_text ops ag pdf_path = (Inr info, ag') \<longrightarrow>
      current_document ag' = Some info \<and>
      (\<exists>ex cr sr st'.
         extract_text_from_pdf env pdf_path = Inr ex \<and>
         chunk_text split_text (ex_text ex) (get_optimal_chunk_size (ex_text ex)) 200
           (dm_filename (ex_metadata ex)) = Inr cr \<and>
         add_chunks ops (vector_store ag) (cr_chunks cr) = (Inr sr, st'))"
    unfolding process_document_def Let_def print_or_def
    by (auto split: option.splits sum.splits prod.splits)
qed

theorem process_document_stages_witness:
  "process_document (\<lambda>line. None)
     \<lparr>path_exists = (\<lambda>p. False), pdf_reader = (\<lambda>p. Inr [Inr ''Hello   world''])\<rparr>
     (\<lambda>size overlap t. Inr [t])
     \<lparr>coll_add = (\<lambda>st d m i. (None, st + length i)), coll_count = (\<lambda>st. st),
      coll_query = (\<lambda>st q k. (Inl ''unused'' :: error + nat query_result))\<rparr>
     \<lparr>vector_store = 0 :: nat, current_document = None\<rparr> ''a.pdf'' =
       (Inl ''PDF extraction failed: File not found: a.pdf'',
        \<lparr>vector_store = 0, current_document = None\<rparr>) \<and>
   process_document (\<lambda>line. None)
     \<lparr>path_exists = (\<lambda>p. True), pdf_reader = (\<lambda>p. Inr [])\<rparr>
     (\<lambda>size overlap t. Inr [t])
     \<lparr>coll_add = (\<lambda>st d m i. (None, st + length i)), coll_count = (\<lambda>st. st),
      coll_query = (\<lambda>st q k. (Inl ''unused'' :: error + nat query_result))\<rparr>
     \<lparr>vector_store = 0 :: nat, current_document = None\<rparr> ''a.pdf'' =
       (Inl ''Chunking failed: Text is empty or None'',
        \<lparr>vector_store = 0, current_document = None\<rparr>) \<and>
   process_document (\<lambda>line. None)
     \<lparr>path_exists = (\<lambda>p. True), pdf_reader = (\<lambda>p. Inr [Inr ''Hello   world''])\<rparr>
     (\<lambda>size overlap t. Inr [t])
     \<lparr>coll_add = (\<lambda>st d m i. (Some ''index unavailable'', st)), coll_count = (\<lambda>st. st),
      coll_query = (\<lambda>st q k. (Inl ''unused'' :: error + nat query_result))\<rparr>
     \<lparr>vector_store = 0 :: nat, current_document = None\<rparr> ''a.pdf'' =
       (Inl ''Vector storage failed: Error adding chunks: index unavailable'',
        \<lparr>vector_store = 0, current_document = None\<rparr>) \<and>
   process_document (\<lambda>line. None)
     \<lparr>path_exists = (\<lambda>p. True), pdf_reader = (\<lambda>p. Inr [Inr ''Hello   world''])\<rparr>
     (\<lambda>size overlap t. Inr [t])
     \<lparr>coll_add = (\<lambda>st d m i. (None, st + length i)), coll_count = (\<lambda>st. st),
      coll_query = (\<lambda>st q k. (Inl ''unused'' :: error + nat query_result))\<rparr>
     \<lparr>vector_store = 0 :: nat, current_document = None\<rparr> ''a.pdf'' =
       (Inr \<lparr>di_filename = ''a.pdf'', di_num_pages = 1, di_total_words = 2,
             di_num_chunks = 1, di_chunk_size = 500\<rparr>,
        \<lparr>vector_store = 1,
         current_document =
           Some \<lparr>di_filename = ''a.pdf'', di_num_pages = 1, di_total_words = 2,
                 di_num_chunks = 1, di_chunk_size = 500\<rparr>\<rparr>) \<and>
   process_document (\<lambda>line. Some ''cannot encode'')
     \<lparr>path_exists = (\<lambda>p. True), pdf_reader = (\<lambda>p. Inr [Inr ''Hello   world''])\<rparr>
     (\<lambda>size overlap t. Inr [t])
     \<lparr>coll_add = (\<lambda>st d m i. (None, st + length i)), coll_count = (\<lambda>st. st),
      coll_query = (\<lambda>st q k. (Inl ''unused'' :: error + nat query_result))\<rparr>
     \<lparr>vector_store = 0 :: nat, current_document = None\<rparr> ''a.pdf'' =
       (Inl ''Error processing document: cannot encode'',
        \<lparr>vector_store = 0, current_document = None\<rparr>)"
proof -
  let ?missing = "\<lparr>path_exists = (\<lambda>p :: string. False),
                   pdf_reader = (\<lambda>p :: string. Inr [Inr ''Hello   world''] :: error + (error + string) list)\<rparr>"
  let ?empty = "\<lparr>path_exists = (\<lambda>p :: string. True),
                 pdf_reader = (\<lambda>p :: string. Inr [] :: error + (error + string) list)\<rparr>"
  let ?env = "\<lparr>path_exists = (\<lambda>p :: string. True),
               pdf_reader = (\<lambda>p :: string. Inr [Inr ''Hello   world''] :: error + (error + string) list)\<rparr>"
  let ?sp = "\<lambda>(size :: nat) (overlap :: nat) (t :: string). (Inr [t] :: error + string list)"
  let ?ops = "\<lparr>coll_add = (\<lambda>(st :: nat) (d :: string list) (m :: chunk_metadata list)
                    (i :: string list). (None :: error option, st + length i)),
               coll_count = (\<lambda>st. st),
               coll_query = (\<lambda>st (q :: string) (k :: int). (Inl ''unused'' :: error + nat query_result))\<rparr>"
  let ?down = "\<lparr>coll_add = (\<lambda>(st :: nat) (d :: string list) (m :: chunk_metadata list)
                    (i :: string list). (Some ''index unavailable'', st)),
               coll_count = (\<lambda>st. st),
               coll_query = (\<lambda>st (q :: string) (k :: int). (Inl ''unused'' :: error + nat query_result))\<rparr>"
  let ?ag = "\<lparr>vector_store = 0 :: nat, current_document = None\<rparr>"
  let ?quiet = "\<lambda>line :: string. (None :: error option)"
  let ?loud = "\<lambda>line :: string. Some ''cannot encode''"
  have pdf: "py_endswith (py_lower ''a.pdf'') ''.pdf''" and bn: "basename ''a.pdf'' = ''a.pdf''"
    and sp0: "py_split [] = []" and cl: "clean_text ''Hello   world'' = ''Hello world''"
    and sp1: "py_split ''Hello world'' = [''Hello'', ''world'']"
    and one: "py_str_nat (Suc 0) = ''1''"
    by code_simp+
  have x1: "extract_text_from_pdf ?missing ''a.pdf'' = Inl ''File not found: a.pdf''"
    by (simp add: extract_text_from_pdf_def)
  have x2: "extract_text_from_pdf ?empty ''a.pdf'' =
      Inr \<lparr>ex_text = [], ex_page_texts = Map.empty,
           ex_metadata = \<lparr>dm_filename = ''a.pdf'', dm_num_pages = 0, dm_total_characters = 0,
                           dm_total_words = 0\<rparr>\<rparr>"
    by (simp add: extract_text_from_pdf_def pdf bn sp0)
  have c2: "chunk_text ?sp [] (get_optimal_chunk_size []) 200 ''a.pdf'' = Inl ''Text is empty or None''"
    by (simp add: chunk_text_def is_blank_def)
  have x3: "extract_text_from_pdf ?env ''a.pdf'' =
      Inr \<lparr>ex_text = ''Hello world'', ex_page_texts = [1 \<mapsto> ''Hello world''],
           ex_metadata = \<lparr>dm_filename = ''a.pdf'', dm_num_pages = 1, dm_total_characters = 11,
                           dm_total_words = 2\<rparr>\<rparr>"
    by (simp add: extract_text_from_pdf_def pdf bn cl sp1)
  have size: "get_optimal_chunk_size ''Hello world'' = 500"
    by (simp add: get_optimal_chunk_size_def)
  have c3: "chunk_text ?sp ''Hello world'' 500 200 ''a.pdf'' =
      Inr \<lparr>cr_chunks = [chunk_obj ''a.pdf'' (Suc 0) 0 ''Hello world''],
           cr_statistics = \<lparr>cs_total_chunks = 1, cs_avg_chunk_size = 11,
                             cs_total_characters = 11, cs_total_words = 2\<rparr>\<rparr>"
    by (simp add: chunk_text_def is_blank_def py_strip_def is_space_def sp1 enumerate_simps)
  have a3: "add_chunks ?down 0 [chunk_obj ''a.pdf'' (Suc 0) 0 ''Hello world''] =
      (Inl ''Error adding chunks: index unavailable'', 0)"
    by (simp add: add_chunks_def chunk_obj_def)
  have a4: "add_chunks ?ops 0 [chunk_obj ''a.pdf'' (Suc 0) 0 ''Hello world''] =
      (Inr \<lparr>ar_chunks_added = 1, ar_total_documents = 1\<rparr>, 1)"
    by (simp add: add_chunks_def chunk_obj_def)
  note q1 = process_document_stages [of ?quiet ?missing "''a.pdf''" ?sp ?ops ?ag, THEN conjunct1]
  note q2 = process_document_stages [of ?quiet ?empty "''a.pdf''" ?sp ?ops ?ag, THEN conjunct1]
  note q3 = process_document_stages [of ?quiet ?env "''a.pdf''" ?sp ?down ?ag, THEN conjunct1]
  note q4 = process_document_stages [of ?quiet ?env "''a.pdf''" ?sp ?ops ?ag, THEN conjunct1]
  note q5 = process_document_stages [of ?loud ?env "''a.pdf''" ?sp ?ops ?ag,
      THEN conjunct2, THEN conjunct1]
  have "process_document ?quiet ?missing ?sp ?ops ?ag ''a.pdf'' =
       (Inl ''PDF extraction failed: File not found: a.pdf'', ?ag)"
    using q1 by (simp add: x1)
  moreover have "process_document ?quiet ?empty ?sp ?ops ?ag ''a.pdf'' =
       (Inl ''Chunking failed: Text is empty or None'', ?ag)"
    using q2 by (simp add: x2 c2)
  moreover have "process_document ?quiet ?env ?sp ?down ?ag ''a.pdf'' =
       (Inl ''Vector storage failed: Error adding chunks: index unavailable'', ?ag)"
    using q3 by (simp add: x3 size c3 a3)
  moreover have "process_document ?quiet ?env ?sp ?ops ?ag ''a.pdf'' =
       (Inr \<lparr>di_filename = ''a.pdf'', di_num_pages = 1, di_total_words = 2,
             di_num_chunks = 1, di_chunk_size = 500\<rparr>,
        \<lparr>vector_store = 1,
         current_document =
           Some \<lparr>di_filename = ''a.pdf'', di_num_pages = 1, di_total_words = 2,
                 di_num_chunks = 1, di_chunk_size = 500\<rparr>\<rparr>)"
    using q4 by (simp add: x3 size c3 a4)
  moreover have "process_document ?loud ?env ?sp ?ops ?ag ''a.pdf'' =
       (Inl ''Error processing document: cannot encode'', ?ag)"
    using q5 by simp
  ultimately show ?thesis by (intro conjI)
qed

text \<open>
  Claim C7 as stated has every run go through the stages and every success of
  the three stages end in the summary. With a console that rejects every write,
  a run on a missing file does not fail with the label of the extraction. With
  a console that fails at the last progress line, the three stages succeed and
  the chunks are stored, yet the run fails and no summary is stored.
\<close>

theorem process_document_console_counterexample:
  "extract_text_from_pdf
     \<lparr>path_exists = (\<lambda>p. False), pdf_reader = (\<lambda>p. Inr [Inr ''Hello   world''])\<rparr>
     ''a.pdf'' = Inl ''File not found: a.pdf'' \<and>
   process_document (\<lambda>line. Some ''cannot encode'')
     \<lparr>path_exists = (\<lambda>p. False), pdf_reader = (\<lambda>p. Inr [Inr ''Hello   world''])\<rparr>
     (\<lambda>size overlap t. Inr [t])
     \<lparr>coll_add = (\<lambda>st d m i. (None, st + length i)), coll_count = (\<lambda>st. st),
      coll_query = (\<lambda>st q k. (Inl ''unused'' :: error + nat query_result))\<rparr>
     \<lparr>vector_store = 0 :: nat, current_document = None\<rparr> ''a.pdf'' =
       (Inl ''Error processing document: cannot encode'',
        \<lparr>vector_store = 0, current_document = None\<rparr>) \<and>
   process_document
     (\<lambda>line. if line = ''      '' @ check_symbol @ '' Stored 1 chunks in vector DB''
              then Some ''broken pipe'' else None)
     \<lparr>path_exists = (\<lambda>p. True), pdf_reader = (\<lambda>p. Inr [Inr ''Hello   world''])\<rparr>
     (\<lambda>size overlap t. Inr [t])
     \<lparr>coll_add = (\<lambda>st d m i. (None, st + length i)), coll_count = (\<lambda>st. st),
      coll_query = (\<lambda>st q k. (Inl ''unused'' :: error + nat query_result))\<rparr>
     \<lparr>vector_store = 0 :: nat, current_document = None\<rparr> ''a.pdf'' =
       (Inl ''Error processing document: broken pipe'',
        \<lparr>vector_store = 1, current_document = None\<rparr>)"
proof (intro conjI)
  show "extract_text_from_pdf
     \<lparr>path_exists = (\<lambda>p. False), pdf_reader = (\<lambda>p. Inr [Inr ''Hello   world''])\<rparr>
     ''a.pdf'' = Inl ''File not found: a.pdf''"
    by (simp add: extract_text_from_pdf_def)
qed code_simp+

text \<open>
  Claim C9. \<open>process_document\<close> is atomic for the current document: after a run
  that fails, at whichever stage or write to the console, the current document
  is the one held before; it is assigned only by a run in which all three stages
  succeeded, and then it is the summary returned.
\<close>

theorem process_document_atomic:
  "(\<forall>e ag'. process_document console env split_text ops ag pdf_path = (Inl e, ag') \<longrightarrow>
      current_document ag' = current_document ag) \<and>
   (\<forall>info ag'. process_document console env split_text ops ag pdf_path = (Inr info, ag') \<longrightarrow>
      current_document ag' = Some info \<and>
      (\<exists>ex cr sr st'.
         extract_text_from_pdf env pdf_path = Inr ex \<and>
         chunk_text split_text (ex_text ex) (get_optimal_chunk_size (ex_text ex)) 200
           (dm_filename (ex_metadata ex)) = Inr cr \<and>
         add_chunks ops (vector_store ag) (cr_chunks cr) = (Inr sr, st')))"
  unfolding process_document_def Let_def print_or_def
  by (auto split: option.splits sum.splits prod.splits)

theorem process_document_atomic_witness:
  "isl (fst (process_document (\<lambda>line. None)
     \<lparr>path_exists = (\<lambda>p. True), pdf_reader = (\<lambda>p. Inr [Inr ''Hello   world''])\<rparr>
     (\<lambda>size overlap t. Inr [t])
     \<lparr>coll_add = (\<lambda>st d m i. (Some ''index unavailable'', st)), coll_count = (\<lambda>st. st),
      coll_query = (\<lambda>st q k. (Inl ''unused'' :: error + nat query_result))\<rparr>
     \<lparr>vector_store = 4 :: nat,
      current_document =
        Some \<lparr>di_filename = ''old.pdf'', di_num_pages = 3, di_total_words = 900,
              di_num_chunks = 4, di_chunk_size = 1000\<rparr>\<rparr> ''a.pdf'')) \<and>
   current_document (snd (process_document (\<lambda>line. None)
     \<lparr>path_exists = (\<lambda>p. True), pdf_reader = (\<lambda>p. Inr [Inr ''Hello   world''])\<rparr>
     (\<lambda>size overlap t. Inr [t])
     \<lparr>coll_add = (\<lambda>st d m i. (Some ''index unavailable'', st)), coll_count = (\<lambda>st. st),
      coll_query = (\<lambda>st q k. (Inl ''unused'' :: error + nat query_result))\<rparr>
     \<lparr>vector_store = 4 :: nat,
      current_document =
        Some \<lparr>di_filename = ''old.pdf'', di_num_pages = 3, di_total_words = 900,
              di_num_chunks = 4, di_chunk_size = 1000\<rparr>\<rparr> ''a.pdf'')) =
     Some \<lparr>di_filename = ''old.pdf'', di_num_pages = 3, di_total_words = 900,
           di_num_chunks = 4, di_chunk_size = 1000\<rparr> \<and>
   (\<exists>info. fst (process_document (\<lambda>line. None)
     \<lparr>path_exists = (\<lambda>p. True), pdf_reader = (\<lambda>p. Inr [Inr ''Hello   world''])\<rparr>
     (\<lambda>size overlap t. Inr [t])
     \<lparr>coll_add = (\<lambda>st d m i. (None, st + length i)), coll_count = (\<lambda>st. st),
      coll_query = (\<lambda>st q k. (Inl ''unused'' :: error + nat query_result))\<rparr>
     \<lparr>vector_store = 4 :: nat,
      current_document =
        Some \<lparr>di_filename = ''old.pdf'', di_num_pages = 3, di_total_words = 900,
              di_num_chunks = 4, di_chunk_size = 1000\<rparr>\<rparr> ''a.pdf'') = Inr info \<and>
     current_document (snd (process_document (\<lambda>line. None)
     \<lparr>path_exists = (\<lambda>p. True), pdf_reader = (\<lambda>p. Inr [Inr ''Hello   world''])\<rparr>
     (\<lambda>size overlap t. Inr [t])
     \<lparr>coll_add = (\<lambda>st d m i. (None, st + length i)), coll_count = (\<lambda>st. st),
      coll_query = (\<lambda>st q k. (Inl ''unused'' :: error + nat query_result))\<rparr>
     \<lparr>vector_store = 4 :: nat,
      current_document =
        Some \<lparr>di_filename = ''old.pdf'', di_num_pages = 3, di_total_words = 900,
              di_num_chunks = 4, di_chunk_size = 1000\<rparr>\<rparr> ''a.pdf'')) = Some info)"
proof -
  let ?env = "\<lparr>path_exists = (\<lambda>p :: string. True),
               pdf_reader = (\<lambda>p :: string. Inr [Inr ''Hello   world''] :: error + (error + string) list)\<rparr>"
  let ?quiet = "\<lambda>line :: string. (None :: error option)"
  let ?sp = "\<lambda>(size :: nat) (overlap :: nat) (t :: string). (Inr [t] :: error + string list)"
  let ?ops = "\<lparr>coll_add = (\<lambda>(st :: nat) (d :: string list) (m :: chunk_metadata list)
                    (i :: string list). (None :: error option, st + length i)),
               coll_count = (\<lambda>st. st),
               coll_query = (\<lambda>st (q :: string) (k :: int). (Inl ''unused'' :: error + nat query_result))\<rparr>"
  let ?down = "\<lparr>coll_add = (\<lambda>(st :: nat) (d :: string list) (m :: chunk_metadata list)
                    (i :: string list). (Some ''index unavailable'', st)),
               coll_count = (\<lambda>st. st),
               coll_query = (\<lambda>st (q :: string) (k :: int). (Inl ''unused'' :: error + nat query_result))\<rparr>"
  let ?old = "\<lparr>di_filename = ''old.pdf'', di_num_pages = 3, di_total_words = 900,
              di_num_chunks = 4, di_chunk_size = 1000\<rparr>"
  let ?ag = "\<lparr>vector_store = 4 :: nat, current_document = Some ?old\<rparr>"
  have f: "isl (fst (process_document ?quiet ?env ?sp ?down ?ag ''a.pdf''))"
    by code_simp
  then obtain e ag' where r: "process_document ?quiet ?env ?sp ?down ?ag ''a.pdf'' = (Inl e, ag')"
    by (cases "process_document ?quiet ?env ?sp ?down ?ag ''a.pdf''";
        cases "fst (process_document ?quiet ?env ?sp ?down ?ag ''a.pdf'')") auto
  from process_document_atomic [of ?quiet ?env ?sp ?down ?ag "''a.pdf''", THEN conjunct1, rule_format, OF r]
  have "current_document ag' = Some ?old" by simp
  with r have kept: "current_document (snd (process_document ?quiet ?env ?sp ?down ?ag ''a.pdf'')) = Some ?old"
    by simp
  have "\<not> isl (fst (process_document ?quiet ?env ?sp ?ops ?ag ''a.pdf''))"
    by code_simp
  then obtain info ag'' where s: "process_document ?quiet ?env ?sp ?ops ?ag ''a.pdf'' = (Inr info, ag'')"
    by (cases "process_document ?quiet ?env ?sp ?ops ?ag ''a.pdf''";
        cases "fst (process_document ?quiet ?env ?sp ?ops ?ag ''a.pdf'')") auto
  from process_document_atomic [of ?quiet ?env ?sp ?ops ?ag "''a.pdf''", THEN conjunct2, rule_format, OF s]
  have "current_document ag'' = Some info" by simp
  with s have "\<exists>info. fst (process_document ?quiet ?env ?sp ?ops ?ag ''a.pdf'') = Inr info \<and>
      current_document (snd (process_document ?quiet ?env ?sp ?ops ?ag ''a.pdf'')) = Some info"
    by simp
  with f kept show ?thesis by (intro conjI)
qed

lemma update_fresh: "k \<notin> fst ` set al \<Longrightarrow> AList.update k v al = al @ [(k, v)]"
  by (induction al) auto

lemma clause_loop_eq:
  "distinct topics \<Longrightarrow> set topics \<inter> fst ` set acc = {} \<Longrightarrow>
     clause_loop ask topics acc =
       acc @ map (\<lambda>t. (t, an_answer (projr (ask (topic_question t) 2))))
               (filter (\<lambda>t. \<not> isl (ask (topic_question t) 2)) topics)"
proof (induction topics arbitrary: acc)
  case Nil
  show ?case by simp
next
  case (Cons t topics)
  show ?case
  proof (cases "ask (topic_question t) 2")
    case (Inl e)
    with Cons show ?thesis by simp
  next
    case (Inr a)
    from Cons.prems have fresh: "t \<notin> fst ` set acc" by auto
    have "set topics \<inter> fst ` set (acc @ [(t, an_answer a)]) = {}"
      using Cons.prems by auto
    with Cons.IH [of "acc @ [(t, an_answer a)]"] Cons.prems(1) Inr fresh show ?thesis
      by (simp add: update_fresh)
  qed
qed

lemma key_topics_distinct: "distinct key_topics"
  by (simp add: key_topics_def)

text \<open>
  Claim C10. \<open>extract_key_clauses\<close> succeeds whatever the six lookups do. Each of
  the six fixed topics is asked with \<open>top_k = 2\<close>; the returned mapping holds, in
  the order of the topics, exactly the topics whose lookup succeeded, each with
  the answer of its lookup; when every lookup fails the mapping is empty and the
  result is still a success.
\<close>

theorem extract_key_clauses_partial:
  "\<exists>clauses.
     extract_key_clauses console ops invoke ag = Inr clauses \<and>
     map fst clauses =
       filter (\<lambda>t. \<not> isl (ask_question console ops invoke ag (topic_question t) 2)) key_topics \<and>
     (\<forall>t. map_of clauses t =
        (if t \<in> set key_topics
         then (case ask_question console ops invoke ag (topic_question t) 2 of
                 Inl e \<Rightarrow> None
               | Inr a \<Rightarrow> Some (an_answer a))
         else None)) \<and>
     ((\<forall>t\<in>set key_topics. isl (ask_question console ops invoke ag (topic_question t) 2)) \<longrightarrow>
        clauses = []) \<and>
     key_topics =
       [''payment terms'', ''termination clause'', ''confidentiality'', ''liability'',
        ''duration of contract'', ''dispute resolution'']"
proof -
  let ?ask = "ask_question console ops invoke ag"
  let ?ok = "\<lambda>t. \<not> isl (?ask (topic_question t) 2)"
  let ?cl = "map (\<lambda>t. (t, an_answer (projr (?ask (topic_question t) 2)))) (filter ?ok key_topics)"
  have e: "extract_key_clauses console ops invoke ag = Inr ?cl"
    using clause_loop_eq [OF key_topics_distinct, of "[]" ?ask]
    by (simp add: extract_key_clauses_def)
  have f: "map fst ?cl = filter ?ok key_topics"
    by (simp add: comp_def)
  have m: "map_of ?cl t =
        (if t \<in> set key_topics
         then (case ?ask (topic_question t) 2 of Inl e \<Rightarrow> None | Inr a \<Rightarrow> Some (an_answer a))
         else None)" for t
  proof -
    have "map_of ?cl t =
        (if t \<in> set (filter ?ok key_topics)
         then Some (an_answer (projr (?ask (topic_question t) 2))) else None)"
      by (simp add: map_of_map_restrict restrict_map_def)
    then show ?thesis
      by (cases "?ask (topic_question t) 2") simp_all
  qed
  have n: "(\<forall>t\<in>set key_topics. isl (?ask (topic_question t) 2)) \<longrightarrow> ?cl = []"
    by (simp add: filter_empty_conv)
  have k: "key_topics =
       [''payment terms'', ''termination clause'', ''confidentiality'', ''liability'',
        ''duration of contract'', ''dispute resolution'']"
    by (simp add: key_topics_def)
  from e f m n k show ?thesis by blast
qed

theorem extract_key_clauses_partial_witness:
  "extract_key_clauses (\<lambda>line. None)
     \<lparr>coll_add = (\<lambda>st d m i. (None, st)), coll_count = (\<lambda>st. 0),
      coll_query = (\<lambda>st q k. (Inl ''the index was queried'' :: error + nat query_result))\<rparr>
     (\<lambda>prompt. Inr ''generated'')
     \<lparr>vector_store = (), current_document = None\<rparr> = Inr [] \<and>
   extract_key_clauses (\<lambda>line. None)
     \<lparr>coll_add = (\<lambda>st d m i. (None, st)), coll_count = (\<lambda>st. 1),
      coll_query = (\<lambda>st q k.
        if q = ''What does the document say about liability?''
        then Inr \<lparr>qr_ids = [[''doc_chunk_1'']], qr_documents = Some [[''Liability is capped.'']],
                  qr_metadatas =
                    [[\<lparr>cm_chunk_index = Some 1, cm_source = Some ''doc'',
                       cm_char_count = Some 20, cm_word_count = Some 3,
                       cm_page_number = Some 0\<rparr>]],
                  qr_distances = Some [[2 :: nat]]\<rparr>
        else Inr \<lparr>qr_ids = [[]], qr_documents = Some [[]], qr_metadatas = [[]],
                  qr_distances = Some [[]]\<rparr>)\<rparr>
     (\<lambda>prompt. Inr ''generated'')
     \<lparr>vector_store = (), current_document = None\<rparr> = Inr [(''liability'', ''generated'')]"
proof -
  let ?ops0 = "\<lparr>coll_add = (\<lambda>(st :: unit) (d :: string list) (m :: chunk_metadata list)
                    (i :: string list). (None :: error option, st)),
      coll_count = (\<lambda>st. 0),
      coll_query = (\<lambda>st (q :: string) (k :: int).
        (Inl ''the index was queried'' :: error + nat query_result))\<rparr>"
  let ?ops1 = "\<lparr>coll_add = (\<lambda>(st :: unit) (d :: string list) (m :: chunk_metadata list)
                    (i :: string list). (None :: error option, st)),
      coll_count = (\<lambda>st. 1),
      coll_query = (\<lambda>st (q :: string) (k :: int).
        if q = ''What does the document say about liability?''
        then Inr \<lparr>qr_ids = [[''doc_chunk_1'']], qr_documents = Some [[''Liability is capped.'']],
                  qr_metadatas =
                    [[\<lparr>cm_chunk_index = Some 1, cm_source = Some ''doc'',
                       cm_char_count = Some 20, cm_word_count = Some 3,
                       cm_page_number = Some 0\<rparr>]],
                  qr_distances = Some [[2 :: nat]]\<rparr>
        else Inr \<lparr>qr_ids = [[]], qr_documents = Some [[]], qr_metadatas = [[]],
                  qr_distances = Some [[]]\<rparr>)\<rparr>"
  let ?quiet = "\<lambda>line :: string. (None :: error option)"
  let ?inv = "\<lambda>prompt :: string. (Inr ''generated'' :: error + string)"
  let ?ag = "\<lparr>vector_store = (), current_document = None\<rparr>"
  have none: "filter (\<lambda>t. \<not> isl (ask_question ?quiet ?ops0 ?inv ?ag (topic_question t) 2)) key_topics = []"
    by code_simp
  from extract_key_clauses_partial [of ?quiet ?ops0 ?inv ?ag] obtain c0 where
    e0: "extract_key_clauses ?quiet ?ops0 ?inv ?ag = Inr c0" and
    f0: "map fst c0 =
       filter (\<lambda>t. \<not> isl (ask_question ?quiet ?ops0 ?inv ?ag (topic_question t) 2)) key_topics"
    by (elim exE conjE) (rule that; assumption)
  from f0 none have "c0 = []" by simp
  with e0 have first: "extract_key_clauses ?quiet ?ops0 ?inv ?ag = Inr []" by simp
  have one: "filter (\<lambda>t. \<not> isl (ask_question ?quiet ?ops1 ?inv ?ag (topic_question t) 2)) key_topics =
      [''liability'']"
    by code_simp
  have ans: "map_sum id an_answer (ask_question ?quiet ?ops1 ?inv ?ag (topic_question ''liability'') 2) =
      Inr ''generated''"
    by code_simp
  have mem: "''liability'' \<in> set key_topics"
    by (simp add: key_topics_def)
  from extract_key_clauses_partial [of ?quiet ?ops1 ?inv ?ag] obtain c1 where
    e1: "extract_key_clauses ?quiet ?ops1 ?inv ?ag = Inr c1" and
    f1: "map fst c1 =
       filter (\<lambda>t. \<not> isl (ask_question ?quiet ?ops1 ?inv ?ag (topic_question t) 2)) key_topics" and
    m1: "\<forall>t. map_of c1 t =
        (if t \<in> set key_topics
         then (case ask_question ?quiet ?ops1 ?inv ?ag (topic_question t) 2 of
                 Inl e \<Rightarrow> None
               | Inr a \<Rightarrow> Some (an_answer a))
         else None)"
    by (elim exE conjE) (rule that; assumption)
  from f1 one obtain v where c1: "c1 = [(''liability'', v)]"
    by (cases c1) auto
  from m1 [rule_format, of "''liability''"] mem ans have "map_of c1 ''liability'' = Some ''generated''"
    by (cases "ask_question ?quiet ?ops1 ?inv ?ag (topic_question ''liability'') 2") simp_all
  with c1 have "c1 = [(''liability'', ''generated'')]" by simp
  with e1 first show ?thesis by simp
qed


section \<open>Properties of ingestion\<close>











end
